theory Spec2Isabelle
  imports Complex_Main "HOL-Library.AList" "HOL-Library.Log_Nat"
begin

section \<open>Decimal arithmetic\<close>

text \<open>
  The engine and the ledger compute with \<^verbatim>\<open>decimal.Decimal\<close> (shopspring/decimal):
  an arbitrary-precision decimal number. \<^verbatim>\<open>Add\<close>, \<^verbatim>\<open>Sub\<close> and \<^verbatim>\<open>Mul\<close> are exact
  and the comparisons compare the numeric values, so a decimal is modelled by the rational
  number it denotes. \<^verbatim>\<open>Div\<close> is not exact: it is \<^verbatim>\<open>DivRound\<close> at
  \<^verbatim>\<open>DivisionPrecision = 16\<close> digits after the decimal point, the quotient being
  rounded to the nearest multiple of \<open>10\<^sup>-\<^sup>1\<^sup>6\<close>, a tie away from zero; it panics on a
  zero divisor, which every caller below writes out as a branch of its own.
\<close>

type_synonym decimal = rat

definition DivisionPrecision :: nat where
  "DivisionPrecision = 16"

definition round_half_away :: "rat \<Rightarrow> int" where
  "round_half_away x = (if 0 \<le> x then \<lfloor>x + 1 / 2\<rfloor> else - \<lfloor>- x + 1 / 2\<rfloor>)"

definition DivRound :: "decimal \<Rightarrow> decimal \<Rightarrow> nat \<Rightarrow> decimal" where
  "DivRound d d2 precision =
     of_int (round_half_away (d / d2 * 10 ^ precision)) / 10 ^ precision"

definition Div :: "decimal \<Rightarrow> decimal \<Rightarrow> decimal" where
  "Div d d2 = DivRound d d2 DivisionPrecision"

section \<open>Errors\<close>

text \<open>
  Every \<^verbatim>\<open>fmt.Errorf\<close> of the ledger and of the engine is a constructor; the two
  run-time panics the code can raise (a decimal division by zero, a field read through a
  nil pointer) are constructors too, kept apart from the returned errors by \<open>is_panic\<close>.
\<close>

datatype error =
    InsufficientFunds
  | NoPositionFound
  | InsufficientShares
  | NoSharesToSell
  | PositionNotInAccount
  | InsufficientSharesInAccount
  | PanicDivisionByZero
  | PanicNilPointer

fun is_panic :: "error \<Rightarrow> bool" where
  "is_panic PanicDivisionByZero = True"
| "is_panic PanicNilPointer = True"
| "is_panic _ = False"

section \<open>The ledger (BacktestBrokerage)\<close>

text \<open>
  \<^verbatim>\<open>positions\<close> is a Go map from ticker to \<^verbatim>\<open>*Position\<close>; it is modelled by an
  association list read with \<open>map_of\<close>, written with \<open>AList.update\<close> and
  \<open>AList.delete\<close>. The mutex is not modelled: every method holds it for its whole body.
\<close>

record Position =
  Shares :: decimal
  AvgBuyPrice :: decimal

record BacktestBrokerage =
  balance :: decimal
  positions :: "(string \<times> Position) list"

definition NewBacktestBrokerage :: "decimal \<Rightarrow> BacktestBrokerage" where
  "NewBacktestBrokerage initialBalance = \<lparr>balance = initialBalance, positions = []\<rparr>"

definition GetAccountValue :: "BacktestBrokerage \<Rightarrow> decimal" where
  "GetAccountValue b =
     fold (\<lambda>(symbol, position) totalValue.
             totalValue + Shares position * AvgBuyPrice position)
          (positions b) (balance b)"

definition GetPosition :: "BacktestBrokerage \<Rightarrow> string \<Rightarrow> error + decimal" where
  "GetPosition b symbol =
     (case map_of (positions b) symbol of
        None \<Rightarrow> Inl NoPositionFound
      | Some pos \<Rightarrow> Inr (Shares pos))"

definition GetCashBalance :: "BacktestBrokerage \<Rightarrow> decimal" where
  "GetCashBalance b = balance b"

text \<open>
  A mutating method returns the error (or \<open>None\<close>) together with the ledger as the call
  leaves it, so that what an error path has already written stays visible: the division
  by \<^verbatim>\<open>totalShares\<close> in \<^verbatim>\<open>ExecuteBuyOrder\<close> comes after the cash has been deducted.
\<close>

definition ExecuteBuyOrder ::
  "BacktestBrokerage \<Rightarrow> string \<Rightarrow> decimal \<Rightarrow> decimal \<Rightarrow> error option \<times> BacktestBrokerage" where
  "ExecuteBuyOrder b symbol quantity limitPrice =
     (let price = limitPrice;
          totalCost = quantity * price
      in if balance b < totalCost then (Some InsufficientFunds, b)
         else
           let b1 = b\<lparr>balance := balance b - totalCost\<rparr>
           in case map_of (positions b1) symbol of
                Some existingPos \<Rightarrow>
                  let totalShares = Shares existingPos + quantity;
                      totalValue = Shares existingPos * AvgBuyPrice existingPos + quantity * price
                  in if totalShares = 0 then (Some PanicDivisionByZero, b1)
                     else
                       let newAvgPrice = Div totalValue totalShares
                       in (None, b1\<lparr>positions :=
                             AList.update symbol
                               (existingPos\<lparr>Shares := totalShares, AvgBuyPrice := newAvgPrice\<rparr>)
                               (positions b1)\<rparr>)
              | None \<Rightarrow>
                  (None, b1\<lparr>positions :=
                     AList.update symbol \<lparr>Shares = quantity, AvgBuyPrice = price\<rparr> (positions b1)\<rparr>))"

definition ExecuteSellOrder ::
  "BacktestBrokerage \<Rightarrow> string \<Rightarrow> decimal \<Rightarrow> decimal \<Rightarrow> error option \<times> BacktestBrokerage" where
  "ExecuteSellOrder b symbol quantity limitPrice =
     (case map_of (positions b) symbol of
        None \<Rightarrow> (Some NoPositionFound, b)
      | Some existingPos \<Rightarrow>
          if Shares existingPos < quantity then (Some InsufficientShares, b)
          else
            let proceeds = quantity * limitPrice;
                b1 = b\<lparr>balance := balance b + proceeds\<rparr>;
                remainingShares = Shares existingPos - quantity
            in if remainingShares = 0
               then (None, b1\<lparr>positions := AList.delete symbol (positions b1)\<rparr>)
               else (None, b1\<lparr>positions :=
                       AList.update symbol (existingPos\<lparr>Shares := remainingShares\<rparr>)
                         (positions b1)\<rparr>))"

definition AddDeposit :: "BacktestBrokerage \<Rightarrow> decimal \<Rightarrow> BacktestBrokerage" where
  "AddDeposit b amount = b\<lparr>balance := balance b + amount\<rparr>"

text \<open>The value the ledger reports for one ticker: shares times average buy price.\<close>

definition position_value :: "BacktestBrokerage \<Rightarrow> string \<Rightarrow> decimal" where
  "position_value b symbol =
     (case map_of (positions b) symbol of
        None \<Rightarrow> 0
      | Some pos \<Rightarrow> Shares pos * AvgBuyPrice pos)"

section \<open>Signals, trades and quotes\<close>

text \<open>
  A \<^verbatim>\<open>time.Time\<close> is modelled by its instant in nanoseconds on the integer line
  (\<^verbatim>\<open>After\<close> is \<open>>\<close>, \<^verbatim>\<open>Equal\<close> is \<open>=\<close>, \<^verbatim>\<open>Sub\<close> is the difference, which
  Go saturates at about 292 years, far from the five days it is compared with).
  A pointer that may be nil is an \<open>option\<close>; the trades a signal points to are not
  shared with any other signal, so they are held by value.
\<close>

type_synonym time = int

definition zeroTime :: time where
  "zeroTime = - 62135596800 * 1000000000"

definition nanosPerDay :: int where
  "nanosPerDay = 24 * 3600 * 1000000000"

type_synonym Status = string

definition StatusActive :: Status where
  "StatusActive = ''ACTIVE''"

definition StatusPending :: Status where
  "StatusPending = ''PENDING''"

definition StatusSold :: Status where
  "StatusSold = ''SOLD''"

record Trade =
  BuyDateTime :: time
  SellDateTime :: time
  BuyPrice :: decimal
  SellPrice :: decimal
  Cost :: decimal
  Proceeds :: decimal
  ProfitLoss :: decimal
  Quantity :: decimal

record Signal =
  ID :: int
  Ticker :: string
  SignalBuyDateTime :: time
  SignalSellDateTime :: time
  AllocationPercentage :: decimal
  Status :: Status
  InitialTrade :: "Trade option"
  DipTrades :: "Trade option list"
  HighPrice :: decimal

record TickerQuote =
  Price :: decimal
  SMA20 :: decimal

section \<open>The engine\<close>

text \<open>
  \<^verbatim>\<open>signals\<close> is a Go map from id to \<^verbatim>\<open>*Signal\<close>; the list holds the signals in the
  order in which \<^verbatim>\<open>range\<close> visits them (any order is possible, and every theorem below
  is about every list). \<^verbatim>\<open>tickerData\<close> is an association list read with \<open>map_of\<close>.
  The brokerage is the backtest ledger.
\<close>

record Engine =
  signals :: "Signal list"
  tickerData :: "(string \<times> TickerQuote) list"
  brokerage :: BacktestBrokerage
  currentDate :: time

text \<open>
  \<^verbatim>\<open>GetAccountValue\<close> of the backtest ledger never returns an error, so the error
  result of \<^verbatim>\<open>CalculateAllocationAmount\<close> is always nil and the function is modelled
  by the amount it returns: the early return of the dip-buy case first, the weight
  formula otherwise. Both divisors are non-zero: the constant 100, and a total percentage
  that exceeds 100.
\<close>

definition CalculateAllocationAmount :: "Engine \<Rightarrow> Signal \<Rightarrow> decimal" where
  "CalculateAllocationAmount e signal =
     (case (if Status signal = StatusActive
            then (case InitialTrade signal of
                    None \<Rightarrow> None
                  | Some initialTrade \<Rightarrow>
                      if currentDate e > BuyDateTime initialTrade then Some (Cost initialTrade)
                      else None)
            else None) of
        Some initialTradeAmount \<Rightarrow> initialTradeAmount
      | None \<Rightarrow>
          let liveSignals =
                filter (\<lambda>s. Status s = StatusPending \<or> Status s = StatusActive) (signals e);
              totalPercentage = fold (\<lambda>s total. total + AllocationPercentage s) liveSignals 0;
              accountValue = GetAccountValue (brokerage e)
          in if totalPercentage \<le> 100
             then let normalizedPercentage = AllocationPercentage signal
                  in Div normalizedPercentage 100 * accountValue
             else let normalizedPercentage = Div (AllocationPercentage signal) totalPercentage * 100
                  in Div normalizedPercentage 100 * accountValue)"

text \<open>
  The three order-placing methods return the error (or \<open>None\<close>), the ledger and the
  signal as the call leaves them. A missing quote makes \<^verbatim>\<open>e.tickerData[...]\<close> nil and
  the read of \<^verbatim>\<open>.Price\<close> panic.
\<close>

definition ExecuteBuy :: "Engine \<Rightarrow> Signal \<Rightarrow> error option \<times> BacktestBrokerage \<times> Signal" where
  "ExecuteBuy e signal =
     (case map_of (tickerData e) (Ticker signal) of
        None \<Rightarrow> (Some PanicNilPointer, brokerage e, signal)
      | Some tickerQuote \<Rightarrow>
          let tickerPrice = Price tickerQuote;
              allocationAmount = CalculateAllocationAmount e signal
          in if tickerPrice = 0 then (Some PanicDivisionByZero, brokerage e, signal)
             else
               let quantity = Div allocationAmount tickerPrice
               in case ExecuteBuyOrder (brokerage e) (Ticker signal) quantity tickerPrice of
                    (Some err, b') \<Rightarrow> (Some err, b', signal)
                  | (None, b') \<Rightarrow>
                      (None, b',
                       signal\<lparr>Status := StatusActive,
                              InitialTrade := Some
                                \<lparr>BuyDateTime = currentDate e, SellDateTime = zeroTime,
                                 BuyPrice = tickerPrice, SellPrice = 0,
                                 Cost = allocationAmount, Proceeds = 0, ProfitLoss = 0,
                                 Quantity = quantity\<rparr>\<rparr>))"

definition ExecuteDipBuy :: "Engine \<Rightarrow> Signal \<Rightarrow> error option \<times> BacktestBrokerage \<times> Signal" where
  "ExecuteDipBuy e signal =
     (case map_of (tickerData e) (Ticker signal) of
        None \<Rightarrow> (Some PanicNilPointer, brokerage e, signal)
      | Some tickerQuote \<Rightarrow>
          let tickerPrice = Price tickerQuote;
              allocationAmount = CalculateAllocationAmount e signal
          in if tickerPrice = 0 then (Some PanicDivisionByZero, brokerage e, signal)
             else
               let quantity = Div allocationAmount tickerPrice
               in case ExecuteBuyOrder (brokerage e) (Ticker signal) quantity tickerPrice of
                    (Some err, b') \<Rightarrow> (Some err, b', signal)
                  | (None, b') \<Rightarrow>
                      let dipTrade =
                            \<lparr>BuyDateTime = currentDate e, SellDateTime = zeroTime,
                             BuyPrice = tickerPrice, SellPrice = 0,
                             Cost = allocationAmount, Proceeds = 0, ProfitLoss = 0,
                             Quantity = quantity\<rparr>
                      in (None, b', signal\<lparr>DipTrades := DipTrades signal @ [Some dipTrade]\<rparr>))"

definition ExecuteSell :: "Engine \<Rightarrow> Signal \<Rightarrow> error option \<times> BacktestBrokerage \<times> Signal" where
  "ExecuteSell e signal =
     (case map_of (tickerData e) (Ticker signal) of
        None \<Rightarrow> (Some PanicNilPointer, brokerage e, signal)
      | Some tickerQuote \<Rightarrow>
          let tickerPrice = Price tickerQuote
          in case InitialTrade signal of
               None \<Rightarrow> (Some PanicNilPointer, brokerage e, signal)
             | Some initialTrade \<Rightarrow>
                 let totalQuantity =
                       fold (\<lambda>dipTrade total.
                               case dipTrade of None \<Rightarrow> total | Some d \<Rightarrow> total + Quantity d)
                            (DipTrades signal) (Quantity initialTrade)
                 in if totalQuantity = 0 then (Some NoSharesToSell, brokerage e, signal)
                    else
                      case GetPosition (brokerage e) (Ticker signal) of
                        Inl err \<Rightarrow> (Some PositionNotInAccount, brokerage e, signal)
                      | Inr accountPosition \<Rightarrow>
                          if accountPosition < totalQuantity
                          then (Some InsufficientSharesInAccount, brokerage e, signal)
                          else
                            case ExecuteSellOrder (brokerage e) (Ticker signal) totalQuantity tickerPrice of
                              (Some err, b') \<Rightarrow> (Some err, b', signal)
                            | (None, b') \<Rightarrow>
                                let initialProceeds = Quantity initialTrade * tickerPrice;
                                    signal1 = signal\<lparr>InitialTrade := Some
                                      (initialTrade\<lparr>SellDateTime := currentDate e,
                                                    SellPrice := tickerPrice,
                                                    Proceeds := initialProceeds,
                                                    ProfitLoss := initialProceeds - Cost initialTrade\<rparr>)\<rparr>;
                                    signal2 = signal1\<lparr>DipTrades :=
                                      map (\<lambda>dipTrade.
                                             case dipTrade of
                                               None \<Rightarrow> None
                                             | Some d \<Rightarrow>
                                                 let dipProceeds = Quantity d * tickerPrice
                                                 in Some (d\<lparr>SellDateTime := currentDate e,
                                                           SellPrice := tickerPrice,
                                                           Proceeds := dipProceeds,
                                                           ProfitLoss := dipProceeds - Cost d\<rparr>))
                                          (DipTrades signal1)\<rparr>
                                in (None, b', signal2\<lparr>Status := StatusSold\<rparr>))"

text \<open>
  \<^verbatim>\<open>CheckDipBuyConditions\<close> returns a boolean, or panics: on a zero
  \<^verbatim>\<open>HighPrice\<close> in the division of condition 2, and on a nil \<^verbatim>\<open>InitialTrade\<close> in
  condition 3. \<^verbatim>\<open>daysSinceLastBuy\<close> is the float \<^verbatim>\<open>Sub(...).Hours() / 24\<close>; the
  test \<^verbatim>\<open>daysSinceLastBuy < 5\<close> holds exactly when the difference of the two instants
  is below five days of nanoseconds, which is how it is written here.
\<close>

definition CheckDipBuyConditions :: "Engine \<Rightarrow> Signal \<Rightarrow> error + bool" where
  "CheckDipBuyConditions e signal =
     (case map_of (tickerData e) (Ticker signal) of
        None \<Rightarrow> Inr False
      | Some tickerQuote \<Rightarrow>
          let currentPrice = Price tickerQuote;
              sma20 = SMA20 tickerQuote;
              high20 = HighPrice signal
          in if currentPrice \<ge> sma20 then Inr False
             else if high20 = 0 then Inl PanicDivisionByZero
             else
               let dropPercentage = Div (high20 - currentPrice) high20 * 100
               in if dropPercentage < 10 then Inr False
                  else
                    case InitialTrade signal of
                      None \<Rightarrow> Inl PanicNilPointer
                    | Some initialTrade \<Rightarrow>
                        if sma20 < BuyPrice initialTrade then Inr False
                        else
                          let lastBuyDate0 =
                                (case InitialTrade signal of
                                   None \<Rightarrow> SignalBuyDateTime signal
                                 | Some t \<Rightarrow> BuyDateTime t);
                              lastBuyDate =
                                fold (\<lambda>dipTrade lastBuy.
                                        case dipTrade of
                                          None \<Rightarrow> lastBuy
                                        | Some d \<Rightarrow>
                                            if BuyDateTime d > lastBuy then BuyDateTime d else lastBuy)
                                     (DipTrades signal) lastBuyDate0
                          in if currentDate e - lastBuyDate < 5 * nanosPerDay then Inr False
                             else if currentPrice \<ge> BuyPrice initialTrade then Inr False
                             else
                               let dipBuyCount = length (DipTrades signal)
                               in if dipBuyCount \<ge> 2 then Inr False else Inr True)"

definition UpdateSignalsHighPrice :: "Engine \<Rightarrow> Engine" where
  "UpdateSignalsHighPrice e =
     e\<lparr>signals :=
         map (\<lambda>signal.
                case map_of (tickerData e) (Ticker signal) of
                  None \<Rightarrow> signal
                | Some tickerQuote \<Rightarrow>
                    if Price tickerQuote > HighPrice signal
                    then signal\<lparr>HighPrice := Price tickerQuote\<rparr>
                    else signal)
             (signals e)\<rparr>"

text \<open>
  One iteration of the loop of \<^verbatim>\<open>Run\<close> for one signal: the transition it takes, with
  the error it met. A returned error is printed and the loop continues; a panic ends the
  program.
\<close>

definition run_signal :: "Engine \<Rightarrow> Signal \<Rightarrow> error option \<times> BacktestBrokerage \<times> Signal" where
  "run_signal e signal =
     (if Status signal = StatusPending \<and> currentDate e \<ge> SignalBuyDateTime signal
      then (case map_of (tickerData e) (Ticker signal) of
              None \<Rightarrow> (None, brokerage e, signal)
            | Some _ \<Rightarrow> ExecuteBuy e signal)
      else if Status signal = StatusActive
      then (if currentDate e \<ge> SignalSellDateTime signal
            then (case map_of (tickerData e) (Ticker signal) of
                    None \<Rightarrow> (None, brokerage e, signal)
                  | Some _ \<Rightarrow> ExecuteSell e signal)
            else (case CheckDipBuyConditions e signal of
                    Inl err \<Rightarrow> (Some err, brokerage e, signal)
                  | Inr True \<Rightarrow> ExecuteDipBuy e signal
                  | Inr False \<Rightarrow> (None, brokerage e, signal)))
      else (None, brokerage e, signal))"

fun run_loop :: "Engine \<Rightarrow> nat list \<Rightarrow> error + Engine" where
  "run_loop e [] = Inr e"
| "run_loop e (i # rest) =
     (case run_signal e (signals e ! i) of
        (Some err, b', signal') \<Rightarrow>
          if is_panic err then Inl err
          else run_loop (e\<lparr>brokerage := b', signals := (signals e)[i := signal']\<rparr>) rest
      | (None, b', signal') \<Rightarrow>
          run_loop (e\<lparr>brokerage := b', signals := (signals e)[i := signal']\<rparr>) rest)"

definition Run :: "Engine \<Rightarrow> error + Engine" where
  "Run e =
     (case run_loop e [0..<length (signals e)] of
        Inl err \<Rightarrow> Inl err
      | Inr e' \<Rightarrow> Inr (UpdateSignalsHighPrice e'))"

section \<open>Exit-simulation strategies\<close>

text \<open>
  The replays of \<^verbatim>\<open>enhanced_backtest.go\<close> compute with \<^verbatim>\<open>float64\<close>, the binary64
  format of IEEE 754. A finite float is modelled by the rational number it denotes, and
  each operation by the exact operation followed by the rounding of the format: to the
  nearest number with a significand of 53 bits, a tie to the even significand. A decimal
  constant of the source (\<^verbatim>\<open>0.95\<close>) is the rounding of its value. Outside the model
  are the infinities and NaN, so a division by zero and an overflow, and the subnormal
  numbers below \<open>2\<^sup>-\<^sup>1\<^sup>0\<^sup>2\<^sup>2\<close>; the operations are the unfused ones.
\<close>

type_synonym float64 = rat

definition pow2 :: "int \<Rightarrow> rat" where
  "pow2 e = (if 0 \<le> e then 2 ^ nat e else 1 / 2 ^ nat (- e))"

text \<open>The exponent \<open>e\<close> of a non-zero number: \<open>2\<^sup>e \<le> |x| < 2\<^sup>e\<^sup>+\<^sup>1\<close>.\<close>

definition exponent64 :: "rat \<Rightarrow> int" where
  "exponent64 x =
     (let a = \<bar>x\<bar>
      in if 1 \<le> a then bitlen \<lfloor>a\<rfloor> - 1
         else let b = bitlen \<lfloor>1 / a\<rfloor>
              in if 1 \<le> a * 2 ^ nat (b - 1) then - (b - 1) else - b)"

definition round_half_even :: "rat \<Rightarrow> int" where
  "round_half_even x =
     (let f = \<lfloor>x\<rfloor>; r = x - of_int f
      in if r < 1 / 2 then f
         else if 1 / 2 < r then f + 1
         else if even f then f else f + 1)"

definition round64 :: "rat \<Rightarrow> float64" where
  "round64 x =
     (if x = 0 then 0
      else let ulp = pow2 (exponent64 x - 52)
           in of_int (round_half_even (x / ulp)) * ulp)"

definition fadd :: "float64 \<Rightarrow> float64 \<Rightarrow> float64" where
  "fadd x y = round64 (x + y)"

definition fsub :: "float64 \<Rightarrow> float64 \<Rightarrow> float64" where
  "fsub x y = round64 (x - y)"

definition fmul :: "float64 \<Rightarrow> float64 \<Rightarrow> float64" where
  "fmul x y = round64 (x * y)"

definition fdiv :: "float64 \<Rightarrow> float64 \<Rightarrow> float64" where
  "fdiv x y = round64 (x / y)"

text \<open>
  The variables of the replay loop. The loop is a recursion over the days still to come:
  a \<^verbatim>\<open>break\<close> returns the state, and \<^verbatim>\<open>i == len(dailyPrices)-1\<close> is the test that
  no day is left.
\<close>

record replay =
  trailingStopLevel :: float64
  highestPrice :: float64
  takeProfitHit :: bool
  maxGain :: float64
  maxDrawdown :: float64
  exitStrategy :: string
  finalPrice :: float64

fun simple_trailing_loop :: "float64 \<Rightarrow> float64 \<Rightarrow> float64 list \<Rightarrow> replay \<Rightarrow> replay" where
  "simple_trailing_loop initialPrice trailingStopPct [] st = st"
| "simple_trailing_loop initialPrice trailingStopPct (price # rest) st =
     (let currentGain = fmul (fdiv (fsub price initialPrice) initialPrice) 100;
          st1 = (if currentGain > maxGain st then st\<lparr>maxGain := currentGain\<rparr> else st);
          st2 = (if currentGain < maxDrawdown st1 then st1\<lparr>maxDrawdown := currentGain\<rparr> else st1)
      in if price \<le> trailingStopLevel st2
         then st2\<lparr>finalPrice := price, exitStrategy := ''Trailing stop hit''\<rparr>
         else
           let st3 = (if price > highestPrice st2
                      then st2\<lparr>highestPrice := price,
                              trailingStopLevel := fmul price (fsub 1 trailingStopPct)\<rparr>
                      else st2);
               st4 = (if rest = []
                      then st3\<lparr>finalPrice := price,
                              exitStrategy := (if exitStrategy st3 = [] then ''Held until sell date''
                                               else exitStrategy st3)\<rparr>
                      else st3)
           in simple_trailing_loop initialPrice trailingStopPct rest st4)"

definition simple_trailing_replay :: "float64 \<Rightarrow> float64 list \<Rightarrow> float64 \<Rightarrow> replay" where
  "simple_trailing_replay initialPrice dailyPrices trailingStopPct =
     simple_trailing_loop initialPrice trailingStopPct dailyPrices
       \<lparr>trailingStopLevel = fmul initialPrice (fsub 1 trailingStopPct),
        highestPrice = initialPrice,
        takeProfitHit = False,
        maxGain = 0, maxDrawdown = 0, exitStrategy = [], finalPrice = initialPrice\<rparr>"

definition simulateSimpleTrailingStop ::
  "float64 \<Rightarrow> float64 list \<Rightarrow> float64 \<Rightarrow> float64 \<times> string \<times> float64 \<times> float64" where
  "simulateSimpleTrailingStop initialPrice dailyPrices trailingStopPct =
     (if dailyPrices = [] then (initialPrice, ''No data'', 0, 0)
      else
        let st = simple_trailing_replay initialPrice dailyPrices trailingStopPct
        in (finalPrice st, exitStrategy st, maxGain st, maxDrawdown st))"

fun trailing_loop :: "float64 \<Rightarrow> float64 \<Rightarrow> float64 \<Rightarrow> float64 list \<Rightarrow> replay \<Rightarrow> replay" where
  "trailing_loop initialPrice takeProfitTarget trailingStopPct [] st = st"
| "trailing_loop initialPrice takeProfitTarget trailingStopPct (price # rest) st =
     (let currentGain = fmul (fdiv (fsub price initialPrice) initialPrice) 100;
          st1 = (if currentGain > maxGain st then st\<lparr>maxGain := currentGain\<rparr> else st);
          st2 = (if currentGain < maxDrawdown st1 then st1\<lparr>maxDrawdown := currentGain\<rparr> else st1);
          st3 = (if price \<ge> takeProfitTarget
                 then st2\<lparr>takeProfitHit := True,
                         exitStrategy := ''Take profit triggered, trailing stop active''\<rparr>
                 else st2);
          st4 = (if price > highestPrice st3
                 then st3\<lparr>highestPrice := price,
                         trailingStopLevel := fmul price (fsub 1 trailingStopPct)\<rparr>
                 else st3)
      in if price \<le> trailingStopLevel st4
         then st4\<lparr>finalPrice := price,
                 exitStrategy := (if takeProfitHit st4 then ''Trailing stop hit (after take profit)''
                                  else ''Trailing stop hit (before take profit)'')\<rparr>
         else
           let st5 = (if rest = []
                      then st4\<lparr>finalPrice := price,
                              exitStrategy := (if exitStrategy st4 = [] then ''Held until sell date''
                                               else exitStrategy st4)\<rparr>
                      else st4)
           in trailing_loop initialPrice takeProfitTarget trailingStopPct rest st5)"

definition trailing_replay :: "float64 \<Rightarrow> float64 list \<Rightarrow> float64 \<Rightarrow> float64 \<Rightarrow> replay" where
  "trailing_replay initialPrice dailyPrices takeProfitPct trailingStopPct =
     trailing_loop initialPrice (fmul initialPrice (fadd 1 takeProfitPct)) trailingStopPct dailyPrices
       \<lparr>trailingStopLevel = fmul initialPrice (fsub 1 trailingStopPct),
        highestPrice = initialPrice,
        takeProfitHit = False,
        maxGain = 0, maxDrawdown = 0, exitStrategy = [], finalPrice = initialPrice\<rparr>"

definition simulateTrailingStop ::
  "float64 \<Rightarrow> float64 list \<Rightarrow> float64 \<Rightarrow> float64 \<Rightarrow> float64 \<times> string \<times> float64 \<times> float64" where
  "simulateTrailingStop initialPrice dailyPrices takeProfitPct trailingStopPct =
     (if dailyPrices = [] then (initialPrice, ''No data'', 0, 0)
      else
        let st = trailing_replay initialPrice dailyPrices takeProfitPct trailingStopPct
        in (finalPrice st, exitStrategy st, maxGain st, maxDrawdown st))"

subsection \<open>Dip detection for the staggered entry\<close>

text \<open>
  The loop of strategy 3 over consecutive days. A float quotient by a previous price of
  zero is an infinity or a NaN, which is below \<open>-0.03\<close> exactly when the numerator is
  negative.
\<close>

fun volatility_spike :: "float64 list \<Rightarrow> float64 option" where
  "volatility_spike (previous # price # rest) =
     (if (if previous = 0 then price < 0
          else fdiv (fsub price previous) previous < round64 (- (3 / 100)))
      then Some price
      else volatility_spike (price # rest))"
| "volatility_spike _ = None"

definition detectDip :: "float64 \<Rightarrow> float64 list \<Rightarrow> float64 \<Rightarrow> float64 \<times> string" where
  "detectDip initialPrice dailyPrices staggerPercent =
     (if dailyPrices = [] then (initialPrice, ''no dip detected (no data)'')
      else
        let oversoldThreshold = fmul initialPrice (round64 (95 / 100))
        in case find (\<lambda>price. price \<le> oversoldThreshold) dailyPrices of
             Some price \<Rightarrow> (price, ''RSI oversold (5% drop)'')
           | None \<Rightarrow>
               if length dailyPrices \<ge> 3
                  \<and> dailyPrices ! 2 < fdiv (fadd (dailyPrices ! 0) (dailyPrices ! 1)) 2
                  \<and> dailyPrices ! 2 < initialPrice
               then (dailyPrices ! 2, ''MA crossover'')
               else
                 case volatility_spike dailyPrices of
                   Some price \<Rightarrow> (price, ''volatility spike (3% drop)'')
                 | None \<Rightarrow>
                     let supportLevel = fmul initialPrice (round64 (98 / 100))
                     in case find (\<lambda>price. price \<le> supportLevel) dailyPrices of
                          Some price \<Rightarrow> (price, ''support break (2% drop)'')
                        | None \<Rightarrow>
                            if length dailyPrices \<ge> 2
                               \<and> dailyPrices ! 1 < dailyPrices ! 0
                               \<and> dailyPrices ! 1 < initialPrice
                            then (dailyPrices ! 1, ''momentum reversal'')
                            else
                              let lowestPrice =
                                    fold (\<lambda>price lowest. if price < lowest then price else lowest)
                                         dailyPrices (dailyPrices ! 0)
                              in if lowestPrice < fmul initialPrice (round64 (99 / 100))
                                 then (lowestPrice, ''lowest price (1%+ drop)'')
                                 else (initialPrice, ''no dip detected''))"

text \<open>
  The entry price of \<^verbatim>\<open>runStaggeredEntryStrategy\<close>, from the initial closing price and
  the first week's daily prices it has fetched.
\<close>

definition weightedBuyPrice :: "float64 \<Rightarrow> float64 list \<Rightarrow> float64 \<Rightarrow> float64" where
  "weightedBuyPrice initialBuyPrice dailyPrices staggerPercent =
     (case detectDip initialBuyPrice dailyPrices staggerPercent of
        (dipBuyPrice, dipStrategy) \<Rightarrow>
          fadd (fmul initialBuyPrice staggerPercent) (fmul dipBuyPrice (fsub 1 staggerPercent)))"

section \<open>Notions used to state the properties\<close>

text \<open>The positions of the ledger valued at their average buy price.\<close>

definition holdings_value :: "(string \<times> Position) list \<Rightarrow> decimal" where
  "holdings_value ps = (\<Sum>(symbol, position) \<leftarrow> ps. Shares position * AvgBuyPrice position)"

text \<open>The quantity an exit sells: the initial lot and every dip lot that is not nil.\<close>

definition combined_quantity :: "Trade \<Rightarrow> Trade option list \<Rightarrow> decimal" where
  "combined_quantity initialTrade dipTrades =
     Quantity initialTrade + (\<Sum>d \<leftarrow> dipTrades. case d of None \<Rightarrow> 0 | Some t \<Rightarrow> Quantity t)"

text \<open>A trade closed at a sell price, from its own quantity and its own cost.\<close>

definition settle :: "time \<Rightarrow> decimal \<Rightarrow> Trade \<Rightarrow> Trade" where
  "settle sellDate sellPrice t =
     t\<lparr>SellDateTime := sellDate, SellPrice := sellPrice,
       Proceeds := Quantity t * sellPrice,
       ProfitLoss := Quantity t * sellPrice - Cost t\<rparr>"

text \<open>
  The realized profit or loss of a signal, as \<^verbatim>\<open>PrintResults\<close> totals it: the
  \<^verbatim>\<open>ProfitLoss\<close> of the initial trade and of every dip trade that is not nil.
\<close>

definition signal_profit_loss :: "Signal \<Rightarrow> decimal" where
  "signal_profit_loss s =
     (case InitialTrade s of None \<Rightarrow> 0 | Some t \<Rightarrow> ProfitLoss t)
       + (\<Sum>d \<leftarrow> DipTrades s. case d of None \<Rightarrow> 0 | Some t \<Rightarrow> ProfitLoss t)"

text \<open>The live signals, the sum \<open>S\<close> of their weights, and the dip-buy case of the allocation.\<close>

definition live_signals :: "Engine \<Rightarrow> Signal list" where
  "live_signals e = filter (\<lambda>s. Status s = StatusPending \<or> Status s = StatusActive) (signals e)"

definition total_percentage :: "Engine \<Rightarrow> decimal" where
  "total_percentage e = (\<Sum>s \<leftarrow> live_signals e. AllocationPercentage s)"

definition past_initial_fill :: "Engine \<Rightarrow> Signal \<Rightarrow> bool" where
  "past_initial_fill e s =
     (Status s = StatusActive
      \<and> (case InitialTrade s of None \<Rightarrow> False | Some t \<Rightarrow> currentDate e > BuyDateTime t))"

definition weighted_signals :: "Engine \<Rightarrow> Signal list" where
  "weighted_signals e = filter (\<lambda>s. \<not> past_initial_fill e s) (live_signals e)"

text \<open>The instant of the most recent fill of a signal.\<close>

definition latest_fill :: "Trade \<Rightarrow> Trade option list \<Rightarrow> time" where
  "latest_fill initialTrade dipTrades =
     Max (set (BuyDateTime initialTrade # [BuyDateTime d. Some d \<leftarrow> dipTrades]))"

text \<open>The high price of a signal after the day's quotes have been seen.\<close>

definition raised_high :: "(string \<times> TickerQuote) list \<Rightarrow> Signal \<Rightarrow> decimal" where
  "raised_high quotes s =
     (case map_of quotes (Ticker s) of
        None \<Rightarrow> HighPrice s
      | Some q \<Rightarrow> max (HighPrice s) (Price q))"

text \<open>
  The gain of a day relative to the entry price, its extrema over the days \<open>0..k\<close>
  (zero included, as both start at zero), the test of each replay that the stop is hit
  on day \<open>k\<close>, and the day a replay ends: the first day the stop is hit, the last day
  of the series when it never is.
\<close>

definition gain :: "float64 \<Rightarrow> float64 \<Rightarrow> float64" where
  "gain initialPrice price = fmul (fdiv (fsub price initialPrice) initialPrice) 100"

definition max_gain_upto :: "float64 \<Rightarrow> float64 list \<Rightarrow> nat \<Rightarrow> float64" where
  "max_gain_upto initialPrice dailyPrices k =
     Max (set (0 # map (gain initialPrice) (take (Suc k) dailyPrices)))"

definition max_drawdown_upto :: "float64 \<Rightarrow> float64 list \<Rightarrow> nat \<Rightarrow> float64" where
  "max_drawdown_upto initialPrice dailyPrices k =
     Min (set (0 # map (gain initialPrice) (take (Suc k) dailyPrices)))"

definition simple_stop_hit :: "float64 \<Rightarrow> float64 \<Rightarrow> float64 list \<Rightarrow> nat \<Rightarrow> bool" where
  "simple_stop_hit initialPrice trailingStopPct dailyPrices k =
     (dailyPrices ! k
        \<le> fmul (fold max (take k dailyPrices) initialPrice) (fsub 1 trailingStopPct))"

definition trailing_stop_hit :: "float64 \<Rightarrow> float64 \<Rightarrow> float64 list \<Rightarrow> nat \<Rightarrow> bool" where
  "trailing_stop_hit initialPrice trailingStopPct dailyPrices k =
     (dailyPrices ! k
        \<le> fmul (fold max (take (Suc k) dailyPrices) initialPrice) (fsub 1 trailingStopPct))"

definition exit_day :: "(nat \<Rightarrow> bool) \<Rightarrow> nat \<Rightarrow> nat" where
  "exit_day hit n = (case find hit [0..<n] of Some k \<Rightarrow> k | None \<Rightarrow> n - 1)"

section \<open>Concrete states\<close>

text \<open>The states at which the theorems below are instantiated. \<open>day n\<close> is midnight of day \<open>n\<close>.\<close>

definition day :: "int \<Rightarrow> time" where
  "day n = n * nanosPerDay"

definition first_lot :: Trade where
  "first_lot =
     \<lparr>BuyDateTime = day 0, SellDateTime = zeroTime, BuyPrice = 100, SellPrice = 0,
      Cost = 5000, Proceeds = 0, ProfitLoss = 0, Quantity = 50\<rparr>"

definition dip_lot :: Trade where
  "dip_lot =
     \<lparr>BuyDateTime = day 7, SellDateTime = zeroTime, BuyPrice = 80, SellPrice = 0,
      Cost = 5000, Proceeds = 0, ProfitLoss = 0, Quantity = 125 / 2\<rparr>"

text \<open>An active signal with two lots, on its sell date, and a ledger that holds \<open>held\<close> shares.\<close>

definition exit_signal :: Signal where
  "exit_signal =
     \<lparr>ID = 1, Ticker = ''X'', SignalBuyDateTime = day 0, SignalSellDateTime = day 30,
      AllocationPercentage = 50, Status = StatusActive,
      InitialTrade = Some first_lot, DipTrades = [Some dip_lot], HighPrice = 120\<rparr>"

definition exit_engine :: "decimal \<Rightarrow> Engine" where
  "exit_engine held =
     \<lparr>signals = [exit_signal],
      tickerData = [(''X'', \<lparr>Price = 110, SMA20 = 100\<rparr>)],
      brokerage = \<lparr>balance = 0, positions = [(''X'', \<lparr>Shares = held, AvgBuyPrice = 88\<rparr>)]\<rparr>,
      currentDate = day 30\<rparr>"

text \<open>The same signal with a ledger that has no position in the ticker.\<close>

definition unfunded_engine :: Engine where
  "unfunded_engine =
     \<lparr>signals = [exit_signal],
      tickerData = [(''X'', \<lparr>Price = 110, SMA20 = 100\<rparr>)],
      brokerage = \<lparr>balance = 0, positions = []\<rparr>,
      currentDate = day 30\<rparr>"

text \<open>
  A signal of weight zero after its buy: the allocation and the quantity were zero, the
  ledger holds a position of zero shares.
\<close>

definition zero_lot_signal :: Signal where
  "zero_lot_signal =
     \<lparr>ID = 2, Ticker = ''Z'', SignalBuyDateTime = day 0, SignalSellDateTime = day 30,
      AllocationPercentage = 0, Status = StatusActive,
      InitialTrade = Some
        \<lparr>BuyDateTime = day 0, SellDateTime = zeroTime, BuyPrice = 40, SellPrice = 0,
         Cost = 0, Proceeds = 0, ProfitLoss = 0, Quantity = 0\<rparr>,
      DipTrades = [], HighPrice = 40\<rparr>"

definition zero_lot_engine :: Engine where
  "zero_lot_engine =
     \<lparr>signals = [zero_lot_signal],
      tickerData = [(''Z'', \<lparr>Price = 45, SMA20 = 42\<rparr>)],
      brokerage = \<lparr>balance = 5000, positions = [(''Z'', \<lparr>Shares = 0, AvgBuyPrice = 40\<rparr>)]\<rparr>,
      currentDate = day 30\<rparr>"

text \<open>
  The same signal before its buy, on its buy date, and a week after its buy on a day that
  meets the dip-buy conditions.
\<close>

definition zero_weight_engine :: Engine where
  "zero_weight_engine =
     \<lparr>signals = [zero_lot_signal\<lparr>Status := StatusPending, InitialTrade := None, HighPrice := 0\<rparr>],
      tickerData = [(''Z'', \<lparr>Price = 40, SMA20 = 40\<rparr>)],
      brokerage = \<lparr>balance = 5000, positions = []\<rparr>,
      currentDate = day 0\<rparr>"

definition zero_lot_dip_engine :: Engine where
  "zero_lot_dip_engine =
     \<lparr>signals = [zero_lot_signal],
      tickerData = [(''Z'', \<lparr>Price = 35, SMA20 = 41\<rparr>)],
      brokerage = brokerage zero_lot_engine,
      currentDate = day 7\<rparr>"

text \<open>An active signal one week after its buy, on a day that meets the dip-buy conditions.\<close>

definition dip_signal :: Signal where
  "dip_signal =
     \<lparr>ID = 1, Ticker = ''X'', SignalBuyDateTime = day 0, SignalSellDateTime = day 30,
      AllocationPercentage = 50, Status = StatusActive,
      InitialTrade = Some first_lot, DipTrades = [], HighPrice = 120\<rparr>"

definition dip_engine :: Engine where
  "dip_engine =
     \<lparr>signals = [dip_signal],
      tickerData = [(''X'', \<lparr>Price = 95, SMA20 = 105\<rparr>)],
      brokerage = \<lparr>balance = 6000, positions = [(''X'', \<lparr>Shares = 50, AvgBuyPrice = 100\<rparr>)]\<rparr>,
      currentDate = day 7\<rparr>"

text \<open>
  An active signal bought at 100, whose high is still 100, a week later on a day at
  \<open>90.000000000000001\<close>: a drop of \<open>9.999999999999999%\<close> from the high.
\<close>

definition shallow_dip_signal :: Signal where
  "shallow_dip_signal =
     \<lparr>ID = 1, Ticker = ''X'', SignalBuyDateTime = day 0, SignalSellDateTime = day 30,
      AllocationPercentage = 50, Status = StatusActive,
      InitialTrade = Some first_lot, DipTrades = [], HighPrice = 100\<rparr>"

definition shallow_dip_engine :: Engine where
  "shallow_dip_engine =
     \<lparr>signals = [shallow_dip_signal],
      tickerData = [(''X'', \<lparr>Price = 90 + 1 / 10 ^ 15, SMA20 = 105\<rparr>)],
      brokerage = \<lparr>balance = 6000, positions = [(''X'', \<lparr>Shares = 50, AvgBuyPrice = 100\<rparr>)]\<rparr>,
      currentDate = day 7\<rparr>"

text \<open>Pending signals that share an account.\<close>

definition pending_signal :: "int \<Rightarrow> decimal \<Rightarrow> Signal" where
  "pending_signal i weight =
     \<lparr>ID = i, Ticker = ''X'', SignalBuyDateTime = day 0, SignalSellDateTime = day 30,
      AllocationPercentage = weight, Status = StatusPending,
      InitialTrade = None, DipTrades = [], HighPrice = 0\<rparr>"

definition oversubscribed_engine :: Engine where
  "oversubscribed_engine =
     \<lparr>signals = [pending_signal 1 60, pending_signal 2 60],
      tickerData = [],
      brokerage = \<lparr>balance = 10000, positions = []\<rparr>,
      currentDate = day 0\<rparr>"

definition six_way_engine :: Engine where
  "six_way_engine =
     \<lparr>signals = [pending_signal 1 20, pending_signal 2 20, pending_signal 3 20,
                 pending_signal 4 20, pending_signal 5 20, pending_signal 6 20],
      tickerData = [],
      brokerage = \<lparr>balance = 5000, positions = []\<rparr>,
      currentDate = day 0\<rparr>"

text \<open>One pending signal on an account whose cash is negative.\<close>

definition overdrawn_engine :: Engine where
  "overdrawn_engine =
     \<lparr>signals = [pending_signal 1 50],
      tickerData = [],
      brokerage = \<lparr>balance = - 100, positions = []\<rparr>,
      currentDate = day 0\<rparr>"

text \<open>A pending signal whose buy date lies a week ahead, with a quote for its ticker.\<close>

definition waiting_signal :: Signal where
  "waiting_signal =
     \<lparr>ID = 3, Ticker = ''X'', SignalBuyDateTime = day 10, SignalSellDateTime = day 40,
      AllocationPercentage = 50, Status = StatusPending,
      InitialTrade = None, DipTrades = [], HighPrice = 0\<rparr>"

definition waiting_engine :: Engine where
  "waiting_engine =
     \<lparr>signals = [waiting_signal],
      tickerData = [(''X'', \<lparr>Price = 100, SMA20 = 100\<rparr>)],
      brokerage = \<lparr>balance = 5000, positions = []\<rparr>,
      currentDate = day 3\<rparr>"

text \<open>An active signal on a rising day, beside a sold signal whose ticker has no quote.\<close>

definition sold_signal :: Signal where
  "sold_signal =
     \<lparr>ID = 4, Ticker = ''Y'', SignalBuyDateTime = day 0, SignalSellDateTime = day 5,
      AllocationPercentage = 10, Status = StatusSold,
      InitialTrade = Some (settle (day 5) 30 (first_lot\<lparr>BuyPrice := 25, Cost := 1250\<rparr>)),
      DipTrades = [], HighPrice = 31\<rparr>"

definition holding_engine :: Engine where
  "holding_engine =
     \<lparr>signals = [dip_signal, sold_signal],
      tickerData = [(''X'', \<lparr>Price = 130, SMA20 = 120\<rparr>)],
      brokerage = \<lparr>balance = 6000, positions = [(''X'', \<lparr>Shares = 50, AvgBuyPrice = 100\<rparr>)]\<rparr>,
      currentDate = day 10\<rparr>"

text \<open>A ledger that holds a first lot of ten shares bought at 100.\<close>

definition ledger_one_lot :: BacktestBrokerage where
  "ledger_one_lot = \<lparr>balance = 4000, positions = [(''X'', \<lparr>Shares = 10, AvgBuyPrice = 100\<rparr>)]\<rparr>"

section \<open>Properties of the decimal division\<close>

lemma floor_rat_numeral_divide:
  "\<lfloor>(numeral a :: rat) / numeral b\<rfloor> = numeral a div numeral b"
  using floor_divide_of_int_eq [where ?'a = rat, of "numeral a" "numeral b"] by simp

lemma floor_rat_one_divide: "\<lfloor>(1 :: rat) / numeral b\<rfloor> = 1 div numeral b"
  using floor_divide_of_int_eq [where ?'a = rat, of 1 "numeral b"] by simp

lemma round_half_away_close: "\<bar>of_int (round_half_away x) - x\<bar> \<le> 1 / 2"
proof (cases "0 \<le> x")
  case True
  have "of_int \<lfloor>x + 1 / 2\<rfloor> \<le> x + 1 / 2" "x + 1 / 2 < of_int \<lfloor>x + 1 / 2\<rfloor> + 1"
    by linarith+
  then have "\<bar>of_int \<lfloor>x + 1 / 2\<rfloor> - x\<bar> \<le> 1 / 2" by linarith
  with True show ?thesis by (simp only: round_half_away_def if_True)
next
  case False
  have "of_int \<lfloor>- x + 1 / 2\<rfloor> \<le> - x + 1 / 2" "- x + 1 / 2 < of_int \<lfloor>- x + 1 / 2\<rfloor> + 1"
    by linarith+
  then have "\<bar>of_int (- \<lfloor>- x + 1 / 2\<rfloor>) - x\<bar> \<le> 1 / 2" by (simp only: of_int_minus)
  with False show ?thesis by (simp only: round_half_away_def if_False)
qed

lemma Div_close:
  assumes "d2 \<noteq> 0"
  shows "\<bar>Div d d2 - d / d2\<bar> \<le> 1 / (2 * 10 ^ 16)"
proof -
  define x where "x = d / d2 * 10 ^ 16"
  have dx: "d / d2 = x / 10 ^ 16" by (simp add: x_def)
  have "Div d d2 - d / d2 = (of_int (round_half_away x) - x) / 10 ^ 16"
    unfolding dx by (simp only: Div_def DivRound_def DivisionPrecision_def x_def [symmetric] diff_divide_distrib)
  then have "\<bar>Div d d2 - d / d2\<bar> = \<bar>of_int (round_half_away x) - x\<bar> / 10 ^ 16"
    by (simp only: abs_divide) simp
  also have "\<dots> \<le> (1 / 2) / 10 ^ 16"
    by (rule divide_right_mono [OF round_half_away_close]) simp
  finally show ?thesis by simp
qed

lemma round_half_away_of_int: "round_half_away (of_int k) = k"
  by (simp add: round_half_away_def) linarith

lemma Div_exact:
  assumes "d = of_int k / 10 ^ 16 * d2" "d2 \<noteq> 0"
  shows "Div d d2 = d / d2"
proof -
  have "d / d2 * 10 ^ 16 = of_int k" using assms by simp
  then show ?thesis
    by (simp only: Div_def DivRound_def DivisionPrecision_def round_half_away_of_int) (simp add: assms)
qed

text \<open>
  Rounding half away from zero reaches a positive integer \<open>n\<close> from \<open>n - 1/2\<close> on, so
  a quotient rounded to 16 places reaches one tenth from \<open>0.1 - 5 \<times> 10\<^sup>-\<^sup>1\<^sup>7\<close> on.
\<close>

lemma round_half_away_ge_iff:
  assumes "0 < n"
  shows "(n \<le> round_half_away x) = (of_int n - 1 / 2 \<le> x)"
proof (cases "0 \<le> x")
  case True
  have "(n \<le> \<lfloor>x + 1 / 2\<rfloor>) = (of_int n \<le> x + 1 / 2)" by (rule le_floor_iff)
  also have "\<dots> = (of_int n - 1 / 2 \<le> x)" by linarith
  finally show ?thesis using True by (simp only: round_half_away_def if_True)
next
  case False
  then have neg: "x < 0" by simp
  then have "0 \<le> \<lfloor>- x + 1 / 2\<rfloor>" by simp
  then have "round_half_away x \<le> 0" using False by (simp only: round_half_away_def if_False)
  with assms have l: "\<not> n \<le> round_half_away x" by linarith
  from assms have "1 \<le> (of_int n :: rat)" by simp
  with neg have r: "\<not> of_int n - 1 / 2 \<le> x" by linarith
  from l r show ?thesis by simp
qed

lemma Div_tenth_iff:
  "(10 \<le> Div d d2 * 100) = (1 / 10 - 1 / (2 * 10 ^ 16) \<le> d / d2)"
proof -
  define x where "x = d / d2 * 10 ^ 16"
  have dx: "d / d2 = x / 10 ^ 16" by (simp add: x_def)
  have "(10 \<le> Div d d2 * 100) = ((10 ^ 15 :: rat) \<le> of_int (round_half_away x))"
    by (simp add: Div_def DivRound_def DivisionPrecision_def x_def field_simps)
  also have "\<dots> = (of_int (10 ^ 15) \<le> (of_int (round_half_away x) :: rat))" by simp
  also have "\<dots> = ((10 ^ 15 :: int) \<le> round_half_away x)" by (simp only: of_int_le_iff)
  also have "\<dots> = (of_int (10 ^ 15) - 1 / 2 \<le> x)" by (rule round_half_away_ge_iff) simp
  also have "\<dots> = (1 / 10 - 1 / (2 * 10 ^ 16) \<le> d / d2)"
    by (simp add: dx field_simps)
  finally show ?thesis .
qed

lemmas Div_eval =
  Div_def DivRound_def DivisionPrecision_def round_half_away_def
  floor_rat_numeral_divide floor_rat_one_divide

lemmas Status_defs = StatusActive_def StatusPending_def StatusSold_def

section \<open>Properties of the ledger\<close>

lemma fold_holdings:
  "fold (\<lambda>(symbol, position) totalValue. totalValue + Shares position * AvgBuyPrice position) ps a
     = a + holdings_value ps"
  by (induction ps arbitrary: a) (auto simp: holdings_value_def)

lemma GetAccountValue_sum: "GetAccountValue b = balance b + holdings_value (positions b)"
  by (simp add: GetAccountValue_def fold_holdings)

lemma holdings_value_update:
  "holdings_value (AList.update k p ps) =
     holdings_value ps
       - (case map_of ps k of None \<Rightarrow> 0 | Some old \<Rightarrow> Shares old * AvgBuyPrice old)
       + Shares p * AvgBuyPrice p"
  by (induction ps) (auto simp: holdings_value_def)

lemma buy_existing_value:
  assumes "totalShares \<noteq> 0"
  shows "\<bar>totalShares * Div totalValue totalShares - totalValue\<bar> \<le> \<bar>totalShares\<bar> / (2 * 10 ^ 16)"
proof -
  have "totalShares * Div totalValue totalShares - totalValue
          = totalShares * (Div totalValue totalShares - totalValue / totalShares)"
    using assms by (simp add: right_diff_distrib)
  then have "\<bar>totalShares * Div totalValue totalShares - totalValue\<bar>
          = \<bar>totalShares\<bar> * \<bar>Div totalValue totalShares - totalValue / totalShares\<bar>"
    by (simp only: abs_mult)
  also have "\<dots> \<le> \<bar>totalShares\<bar> * (1 / (2 * 10 ^ 16))"
    by (rule mult_left_mono [OF Div_close [OF assms]]) simp
  finally show ?thesis by simp
qed

text \<open>
  Claim C10, as amended. For every ledger and every buy order whose total cost
  \<open>quantity \<times> price\<close> does not exceed the cash, and which does not bring the share count of
  a ticker already held to zero, \<^verbatim>\<open>ExecuteBuyOrder\<close> succeeds and decreases the cash by
  exactly \<open>quantity \<times> price\<close>. For a ticker not held before, the position value (shares
  times average buy price) is exactly \<open>quantity \<times> price\<close> and \<^verbatim>\<open>GetAccountValue\<close> is
  unchanged. For a ticker already held, the new average price is a quotient rounded at 16
  decimal digits: the position value differs from the old value plus \<open>quantity \<times> price\<close>,
  and the account value from its value before the buy, by at most the new share count
  times \<open>5 \<times> 10\<^sup>-\<^sup>1\<^sup>7\<close>.
\<close>

theorem ExecuteBuyOrder_account_value:
  assumes "quantity * price \<le> balance b"
    and "case map_of (positions b) symbol of
           None \<Rightarrow> True | Some pos \<Rightarrow> Shares pos + quantity \<noteq> 0"
  shows "\<exists>b'. ExecuteBuyOrder b symbol quantity price = (None, b')
           \<and> balance b' = balance b - quantity * price
           \<and> (case map_of (positions b) symbol of
                None \<Rightarrow>
                  position_value b' symbol = quantity * price
                  \<and> GetAccountValue b' = GetAccountValue b
              | Some pos \<Rightarrow>
                  \<bar>position_value b' symbol - (position_value b symbol + quantity * price)\<bar>
                     \<le> \<bar>Shares pos + quantity\<bar> / (2 * 10 ^ 16)
                  \<and> \<bar>GetAccountValue b' - GetAccountValue b\<bar>
                     \<le> \<bar>Shares pos + quantity\<bar> / (2 * 10 ^ 16))"
proof (cases "map_of (positions b) symbol")
  case None
  with assms show ?thesis
    by (simp add: ExecuteBuyOrder_def Let_def position_value_def GetAccountValue_sum
        holdings_value_update update_conv')
next
  case (Some pos)
  with assms have nz: "Shares pos + quantity \<noteq> 0" by simp
  define V where "V = Shares pos * AvgBuyPrice pos + quantity * price"
  have bound: "\<bar>(Shares pos + quantity) * Div V (Shares pos + quantity) - V\<bar>
                 \<le> \<bar>Shares pos + quantity\<bar> / (2 * 10 ^ 16)"
    by (rule buy_existing_value [OF nz])
  from Some assms nz bound show ?thesis
    by (simp add: ExecuteBuyOrder_def Let_def position_value_def GetAccountValue_sum
        holdings_value_update update_conv' V_def algebra_simps)
qed

text \<open>The theorem at a second lot of 20 shares at 95 added to ten shares held at 100.\<close>

theorem ExecuteBuyOrder_account_value_witness:
  "20 * 95 \<le> balance ledger_one_lot
   \<and> fst (ExecuteBuyOrder ledger_one_lot ''X'' 20 95) = None
   \<and> balance (snd (ExecuteBuyOrder ledger_one_lot ''X'' 20 95)) = 2100
   \<and> \<bar>GetAccountValue (snd (ExecuteBuyOrder ledger_one_lot ''X'' 20 95))
        - GetAccountValue ledger_one_lot\<bar> \<le> 30 / (2 * 10 ^ 16)"
  using ExecuteBuyOrder_account_value [of 20 95 ledger_one_lot "''X''"]
  by (auto simp: ledger_one_lot_def)

text \<open>
  The claim as first stated, that a buy never changes the reported account value, fails
  at that order: the new average price \<open>2900 / 30\<close> is rounded up at the sixteenth
  digit, and the thirty shares are then valued \<open>10\<^sup>-\<^sup>1\<^sup>5\<close> above their cost. And a
  buy of zero shares of a ticker held with zero shares, which is what the dip buy of a
  signal of weight zero places, does not return: the division by the new share count
  panics.
\<close>

theorem ExecuteBuyOrder_account_value_counterexample:
  "20 * 95 \<le> balance ledger_one_lot
   \<and> fst (ExecuteBuyOrder ledger_one_lot ''X'' 20 95) = None
   \<and> GetAccountValue ledger_one_lot = 5000
   \<and> GetAccountValue (snd (ExecuteBuyOrder ledger_one_lot ''X'' 20 95))
        = 5000 + 1 / 10 ^ 15
   \<and> 0 * 38 \<le> balance (brokerage zero_lot_engine)
   \<and> ExecuteBuyOrder (brokerage zero_lot_engine) ''Z'' 0 38
        = (Some PanicDivisionByZero, brokerage zero_lot_engine)"
  by (simp add: ledger_one_lot_def ExecuteBuyOrder_def GetAccountValue_def Div_eval
        zero_lot_engine_def)

section \<open>Properties of the exit\<close>

lemma fold_quantity:
  "fold (\<lambda>dipTrade total. case dipTrade of None \<Rightarrow> total | Some d \<Rightarrow> total + Quantity d) ds a
     = a + (\<Sum>d \<leftarrow> ds. case d of None \<Rightarrow> 0 | Some t \<Rightarrow> Quantity t)"
  by (induction ds arbitrary: a) (auto split: option.splits)

lemma ExecuteSellOrder_ok:
  assumes "map_of (positions b) symbol = Some pos" "quantity \<le> Shares pos"
  shows "\<exists>b'. ExecuteSellOrder b symbol quantity price = (None, b')
            \<and> balance b' = balance b + quantity * price"
  using assms by (simp add: ExecuteSellOrder_def Let_def)

lemma settled_profit_loss:
  "sum_list (map (case_option 0 ProfitLoss \<circ> map_option (settle date price)) ds)
     = (\<Sum>d \<leftarrow> ds. case d of None \<Rightarrow> 0 | Some t \<Rightarrow> Quantity t * price - Cost t)"
  by (induction ds) (auto simp: settle_def split: option.splits)

lemma case_option_Some: "case_option None (\<lambda>d. Some (f d)) = map_option f"
  by (rule ext) (simp split: option.splits)

lemma ProfitLoss_settle: "ProfitLoss (settle date price t) = Quantity t * price - Cost t"
  by (simp add: settle_def)

lemma settle_fold:
  "t\<lparr>SellDateTime := date, SellPrice := price, Proceeds := Quantity t * price,
     ProfitLoss := Quantity t * price - Cost t\<rparr> = settle date price t"
  by (simp add: settle_def)

lemma settle_map:
  "map (case_option None
          (\<lambda>d. Some (d\<lparr>SellDateTime := date, SellPrice := price,
                         Proceeds := Quantity d * price,
                         ProfitLoss := Quantity d * price - Cost d\<rparr>))) ds
     = map (map_option (settle date price)) ds"
  by (induction ds) (auto simp: settle_def split: option.splits)

text \<open>
  Claim C1, as amended. When \<^verbatim>\<open>ExecuteSell\<close> runs for an Active signal that has an
  InitialTrade and a quote for the day, whose combined quantity (InitialTrade plus all
  DipTrades) is not zero and is held by the ledger in a position of at least that many
  shares, it executes one sell order for the combined quantity at the day's price, sets
  each trade's proceeds to that trade's own quantity times the sell price and its
  profit/loss to its own proceeds minus its own cost, and sets the status to Sold; the
  realized profit/loss of the signal is then the sum over its trades of own quantity times
  sell price minus own cost.
\<close>

theorem ExecuteSell_settles_each_trade:
  assumes "Status s = StatusActive"
    and "InitialTrade s = Some t"
    and "map_of (tickerData e) (Ticker s) = Some q"
    and "combined_quantity t (DipTrades s) \<noteq> 0"
    and "map_of (positions (brokerage e)) (Ticker s) = Some pos"
    and "combined_quantity t (DipTrades s) \<le> Shares pos"
  shows "\<exists>b' s'. ExecuteSell e s = (None, b', s')
           \<and> ExecuteSellOrder (brokerage e) (Ticker s)
                 (combined_quantity t (DipTrades s)) (Price q) = (None, b')
           \<and> balance b' = balance (brokerage e) + combined_quantity t (DipTrades s) * Price q
           \<and> Status s' = StatusSold
           \<and> InitialTrade s' = Some (settle (currentDate e) (Price q) t)
           \<and> DipTrades s' = map (map_option (settle (currentDate e) (Price q))) (DipTrades s)
           \<and> signal_profit_loss s' =
                (Quantity t * Price q - Cost t)
                  + (\<Sum>d \<leftarrow> DipTrades s. case d of None \<Rightarrow> 0
                                            | Some d \<Rightarrow> Quantity d * Price q - Cost d)"
proof -
  let ?total = "combined_quantity t (DipTrades s)"
  obtain b' where b': "ExecuteSellOrder (brokerage e) (Ticker s) ?total (Price q) = (None, b')"
      "balance b' = balance (brokerage e) + ?total * Price q"
    using ExecuteSellOrder_ok [OF assms(5,6)] by blast
  have tot: "fold (\<lambda>dipTrade total. case dipTrade of None \<Rightarrow> total | Some d \<Rightarrow> total + Quantity d)
               (DipTrades s) (Quantity t) = ?total"
    by (simp add: fold_quantity combined_quantity_def)
  have pos: "GetPosition (brokerage e) (Ticker s) = Inr (Shares pos)"
    using assms(5) by (simp add: GetPosition_def)
  have nlt: "\<not> Shares pos < ?total" using assms(6) by simp
  show ?thesis
    unfolding ExecuteSell_def
    by (simp only: assms(2,3,4) option.case Let_def tot pos sum.case nlt if_False b' prod.case
          settle_map settle_fold)
       (simp add: b' signal_profit_loss_def settled_profit_loss case_option_Some ProfitLoss_settle)
qed

text \<open>The theorem at a signal with two lots, 50 shares bought at 100 and 62.5 bought at 80, sold at 110.\<close>

theorem ExecuteSell_settles_each_trade_witness:
  "Status exit_signal = StatusActive
   \<and> InitialTrade exit_signal = Some first_lot
   \<and> map_of (tickerData (exit_engine (225 / 2))) (Ticker exit_signal) = Some \<lparr>Price = 110, SMA20 = 100\<rparr>
   \<and> combined_quantity first_lot (DipTrades exit_signal) = 225 / 2
   \<and> map_of (positions (brokerage (exit_engine (225 / 2)))) (Ticker exit_signal)
        = Some \<lparr>Shares = 225 / 2, AvgBuyPrice = 88\<rparr>
   \<and> fst (ExecuteSell (exit_engine (225 / 2)) exit_signal) = None
   \<and> balance (fst (snd (ExecuteSell (exit_engine (225 / 2)) exit_signal))) = 12375
   \<and> Status (snd (snd (ExecuteSell (exit_engine (225 / 2)) exit_signal))) = StatusSold
   \<and> signal_profit_loss (snd (snd (ExecuteSell (exit_engine (225 / 2)) exit_signal))) = 500 + 1875"
proof -
  have h1: "Status exit_signal = StatusActive"
    and h2: "InitialTrade exit_signal = Some first_lot"
    and h3: "map_of (tickerData (exit_engine (225 / 2))) (Ticker exit_signal)
               = Some \<lparr>Price = 110, SMA20 = 100\<rparr>"
    and h5: "map_of (positions (brokerage (exit_engine (225 / 2)))) (Ticker exit_signal)
               = Some \<lparr>Shares = 225 / 2, AvgBuyPrice = 88\<rparr>"
    by (simp_all add: exit_signal_def exit_engine_def)
  have q: "combined_quantity first_lot (DipTrades exit_signal) = 225 / 2"
    by (simp add: combined_quantity_def exit_signal_def first_lot_def dip_lot_def)
  have h4: "combined_quantity first_lot (DipTrades exit_signal) \<noteq> 0"
    and h6: "combined_quantity first_lot (DipTrades exit_signal)
               \<le> Shares \<lparr>Shares = 225 / 2, AvgBuyPrice = 88\<rparr>"
    by (simp_all add: q)
  from ExecuteSell_settles_each_trade [OF h1 h2 h3 h4 h5 h6]
  obtain b' s' where r: "ExecuteSell (exit_engine (225 / 2)) exit_signal = (None, b', s')"
    and b: "balance b' = balance (brokerage (exit_engine (225 / 2)))
              + combined_quantity first_lot (DipTrades exit_signal) * Price \<lparr>Price = 110, SMA20 = 100\<rparr>"
    and s: "Status s' = StatusSold"
    and pl: "signal_profit_loss s' =
               (Quantity first_lot * Price \<lparr>Price = 110, SMA20 = 100\<rparr> - Cost first_lot)
               + (\<Sum>d \<leftarrow> DipTrades exit_signal. case d of None \<Rightarrow> 0
                    | Some d \<Rightarrow> Quantity d * Price \<lparr>Price = 110, SMA20 = 100\<rparr> - Cost d)"
    by blast
  have "balance b' = 12375" unfolding b q by (simp add: exit_engine_def)
  moreover have "signal_profit_loss s' = 500 + 1875"
    unfolding pl by (simp add: exit_signal_def first_lot_def dip_lot_def)
  ultimately show ?thesis using h1 h2 h3 h5 q r s by simp
qed

text \<open>The claim as first stated, for every Active signal with an InitialTrade and a quote,
  fails where the ledger has no position in the ticker, and for a signal of weight zero,
  whose lot and position hold zero shares: \<^verbatim>\<open>ExecuteSell\<close> returns an error and the
  signal stays Active.\<close>

theorem ExecuteSell_settles_each_trade_counterexample:
  "Status exit_signal = StatusActive
   \<and> InitialTrade exit_signal = Some first_lot
   \<and> map_of (tickerData unfunded_engine) (Ticker exit_signal) = Some \<lparr>Price = 110, SMA20 = 100\<rparr>
   \<and> ExecuteSell unfunded_engine exit_signal
        = (Some PositionNotInAccount, brokerage unfunded_engine, exit_signal)
   \<and> Status zero_lot_signal = StatusActive
   \<and> InitialTrade zero_lot_signal \<noteq> None
   \<and> map_of (tickerData zero_lot_engine) (Ticker zero_lot_signal) = Some \<lparr>Price = 45, SMA20 = 42\<rparr>
   \<and> ExecuteSell zero_lot_engine zero_lot_signal
        = (Some NoSharesToSell, brokerage zero_lot_engine, zero_lot_signal)"
  by (simp add: ExecuteSell_def GetPosition_def exit_signal_def unfunded_engine_def
        zero_lot_signal_def zero_lot_engine_def first_lot_def dip_lot_def)

text \<open>
  Claim C7. At exit time (an Active signal with an InitialTrade and a quote for the day),
  if the ledger holds no position in the signal's ticker or fewer shares than the combined
  quantity of the InitialTrade and all DipTrades, \<^verbatim>\<open>ExecuteSell\<close> returns an error
  (not a panic) and performs no sell: it leaves the signal, with its status, InitialTrade
  and DipTrades, and the ledger, with its cash and positions, exactly as they were.
\<close>

theorem ExecuteSell_insufficient_shares:
  assumes "Status s = StatusActive"
    and "InitialTrade s = Some t"
    and "map_of (tickerData e) (Ticker s) = Some q"
    and "case map_of (positions (brokerage e)) (Ticker s) of
           None \<Rightarrow> True
         | Some pos \<Rightarrow> Shares pos < combined_quantity t (DipTrades s)"
  shows "\<exists>err. ExecuteSell e s = (Some err, brokerage e, s) \<and> \<not> is_panic err"
proof -
  let ?total = "combined_quantity t (DipTrades s)"
  have tot: "fold (\<lambda>dipTrade total. case dipTrade of None \<Rightarrow> total | Some d \<Rightarrow> total + Quantity d)
               (DipTrades s) (Quantity t) = ?total"
    by (simp add: fold_quantity combined_quantity_def)
  show ?thesis
    unfolding ExecuteSell_def using assms(4)
    by (simp only: assms(2,3) option.case Let_def tot)
       (auto simp: GetPosition_def split: option.splits)
qed

text \<open>The theorem at a ledger that holds 100 shares of the 112.5 recorded.\<close>

theorem ExecuteSell_insufficient_shares_witness:
  "Status exit_signal = StatusActive
   \<and> InitialTrade exit_signal = Some first_lot
   \<and> map_of (tickerData (exit_engine 100)) (Ticker exit_signal) = Some \<lparr>Price = 110, SMA20 = 100\<rparr>
   \<and> map_of (positions (brokerage (exit_engine 100))) (Ticker exit_signal)
        = Some \<lparr>Shares = 100, AvgBuyPrice = 88\<rparr>
   \<and> 100 < combined_quantity first_lot (DipTrades exit_signal)
   \<and> fst (ExecuteSell (exit_engine 100) exit_signal) \<noteq> None
   \<and> snd (ExecuteSell (exit_engine 100) exit_signal) = (brokerage (exit_engine 100), exit_signal)"
proof -
  have h1: "Status exit_signal = StatusActive"
    and h2: "InitialTrade exit_signal = Some first_lot"
    and h3: "map_of (tickerData (exit_engine 100)) (Ticker exit_signal)
               = Some \<lparr>Price = 110, SMA20 = 100\<rparr>"
    and h5: "map_of (positions (brokerage (exit_engine 100))) (Ticker exit_signal)
               = Some \<lparr>Shares = 100, AvgBuyPrice = 88\<rparr>"
    by (simp_all add: exit_signal_def exit_engine_def)
  have q: "100 < combined_quantity first_lot (DipTrades exit_signal)"
    by (simp add: combined_quantity_def exit_signal_def first_lot_def dip_lot_def)
  have h4: "case map_of (positions (brokerage (exit_engine 100))) (Ticker exit_signal) of
              None \<Rightarrow> True
            | Some pos \<Rightarrow> Shares pos < combined_quantity first_lot (DipTrades exit_signal)"
    by (simp add: h5 q)
  from ExecuteSell_insufficient_shares [OF h1 h2 h3 h4] h1 h2 h3 h5 q
  show ?thesis by auto
qed

section \<open>Properties of the allocation\<close>

lemma fold_percentage:
  "fold (\<lambda>s total. total + AllocationPercentage s) xs a = a + (\<Sum>s \<leftarrow> xs. AllocationPercentage s)"
  by (induction xs arbitrary: a) auto

lemma Div_100_100: "Div (Div w S * 100) 100 = Div w S"
proof -
  have "Div w S * 100 = of_int (round_half_away (w / S * 10 ^ 16)) / 10 ^ 16 * 100"
    by (simp add: Div_def DivRound_def DivisionPrecision_def)
  then have "Div (Div w S * 100) 100 = Div w S * 100 / 100"
    by (rule Div_exact) simp
  then show ?thesis by simp
qed

lemma CalculateAllocationAmount_weighted:
  assumes "\<not> past_initial_fill e s"
  shows "CalculateAllocationAmount e s =
           (if total_percentage e \<le> 100
            then Div (AllocationPercentage s) 100 * GetAccountValue (brokerage e)
            else Div (AllocationPercentage s) (total_percentage e) * GetAccountValue (brokerage e))"
  using assms
  by (auto simp: CalculateAllocationAmount_def past_initial_fill_def Let_def fold_percentage
        total_percentage_def live_signals_def Div_100_100 split: option.splits)

lemma CalculateAllocationAmount_dip:
  assumes "Status s = StatusActive" "InitialTrade s = Some t" "currentDate e > BuyDateTime t"
  shows "CalculateAllocationAmount e s = Cost t"
  using assms by (simp add: CalculateAllocationAmount_def Let_def)

lemma Div_upper:
  assumes "d2 \<noteq> 0"
  shows "Div d d2 \<le> d / d2 + 1 / (2 * 10 ^ 16)"
proof -
  have "\<bar>Div d d2 - d / d2\<bar> \<le> 1 / (2 * 10 ^ 16)" by (rule Div_close [OF assms])
  then show ?thesis by linarith
qed

lemma sum_Div_upper:
  assumes "D \<noteq> 0"
  shows "(\<Sum>s \<leftarrow> xs. Div (AllocationPercentage s) D)
           \<le> (\<Sum>s \<leftarrow> xs. AllocationPercentage s) / D + of_nat (length xs) / (2 * 10 ^ 16)"
proof (induction xs)
  case Nil
  show ?case by simp
next
  case (Cons x xs)
  have "Div (AllocationPercentage x) D \<le> AllocationPercentage x / D + 1 / (2 * 10 ^ 16)"
    by (rule Div_upper [OF assms])
  with Cons show ?case by (simp add: add_divide_distrib)
qed

lemma sum_filter_le:
  assumes "\<forall>s \<in> set xs. 0 \<le> AllocationPercentage s"
  shows "(\<Sum>s \<leftarrow> filter P xs. AllocationPercentage s) \<le> (\<Sum>s \<leftarrow> xs. AllocationPercentage s)"
  using assms by (induction xs) auto

text \<open>
  Claim C2, as amended. In every engine state in which every live signal (Pending or
  Active) has a non-negative weight, with \<open>S\<close> the sum of the live weights and the
  quotients those of the decimal division (rounded at 16 digits): a signal that is not an
  Active signal past the buy date of its InitialTrade is assigned
  \<open>(weight / 100) \<times> accountValue\<close> when \<open>S \<le> 100\<close> and \<open>(weight / S) \<times> accountValue\<close>
  when \<open>S > 100\<close>; an Active signal past the buy date of its InitialTrade is assigned the
  cost of its InitialTrade instead. Consequently, for a non-negative account value, the
  amounts of the \<open>n\<close> live signals that take the weight formula sum to at most
  \<open>accountValue \<times> (1 + n \<times> 5 \<times> 10\<^sup>-\<^sup>1\<^sup>7)\<close>.
\<close>

theorem CalculateAllocationAmount_weights:
  assumes "\<forall>s \<in> set (live_signals e). 0 \<le> AllocationPercentage s"
  shows "(\<forall>s. \<not> past_initial_fill e s \<longrightarrow>
            CalculateAllocationAmount e s =
              (if total_percentage e \<le> 100
               then Div (AllocationPercentage s) 100 * GetAccountValue (brokerage e)
               else Div (AllocationPercentage s) (total_percentage e) * GetAccountValue (brokerage e)))
         \<and> (\<forall>(s::Signal) t. Status s = StatusActive \<and> InitialTrade s = Some t \<and> currentDate e > BuyDateTime t \<longrightarrow>
               CalculateAllocationAmount e s = Cost t)
         \<and> (0 \<le> GetAccountValue (brokerage e) \<longrightarrow>
               (\<Sum>s \<leftarrow> weighted_signals e. CalculateAllocationAmount e s)
                 \<le> GetAccountValue (brokerage e)
                      * (1 + of_nat (length (weighted_signals e)) / (2 * 10 ^ 16)))"
proof (intro conjI allI impI)
  fix s assume "\<not> past_initial_fill e s"
  then show "CalculateAllocationAmount e s =
              (if total_percentage e \<le> 100
               then Div (AllocationPercentage s) 100 * GetAccountValue (brokerage e)
               else Div (AllocationPercentage s) (total_percentage e) * GetAccountValue (brokerage e))"
    by (rule CalculateAllocationAmount_weighted)
next
  fix s :: Signal and t assume "Status s = StatusActive \<and> InitialTrade s = Some t \<and> currentDate e > BuyDateTime t"
  then show "CalculateAllocationAmount e s = Cost t"
    by (simp add: CalculateAllocationAmount_dip)
next
  let ?A = "GetAccountValue (brokerage e)"
  let ?W = "weighted_signals e"
  let ?S = "total_percentage e"
  let ?n = "of_nat (length ?W) :: rat"
  assume A: "0 \<le> ?A"
  define D where "D = (if ?S \<le> 100 then 100 else ?S)"
  have Dpos: "0 < D" and SD: "?S \<le> D" by (auto simp: D_def)
  have each: "CalculateAllocationAmount e s = Div (AllocationPercentage s) D * ?A"
    if "s \<in> set ?W" for s
    using that by (simp add: weighted_signals_def CalculateAllocationAmount_weighted D_def)
  have "(\<Sum>s \<leftarrow> ?W. CalculateAllocationAmount e s) = (\<Sum>s \<leftarrow> ?W. Div (AllocationPercentage s) D * ?A)"
    by (rule arg_cong [where f = sum_list]) (simp add: each)
  also have "\<dots> = (\<Sum>s \<leftarrow> ?W. Div (AllocationPercentage s) D) * ?A"
    by (simp add: sum_list_mult_const)
  also have "\<dots> \<le> (1 + ?n / (2 * 10 ^ 16)) * ?A"
  proof (rule mult_right_mono [OF _ A])
    have "(\<Sum>s \<leftarrow> ?W. Div (AllocationPercentage s) D)
            \<le> (\<Sum>s \<leftarrow> ?W. AllocationPercentage s) / D + ?n / (2 * 10 ^ 16)"
      using Dpos by (intro sum_Div_upper) simp
    moreover have "(\<Sum>s \<leftarrow> ?W. AllocationPercentage s) \<le> ?S"
      unfolding weighted_signals_def total_percentage_def by (rule sum_filter_le [OF assms])
    then have "(\<Sum>s \<leftarrow> ?W. AllocationPercentage s) / D \<le> 1"
      using Dpos SD by (simp add: divide_le_eq)
    ultimately show "(\<Sum>s \<leftarrow> ?W. Div (AllocationPercentage s) D) \<le> 1 + ?n / (2 * 10 ^ 16)"
      by linarith
  qed
  finally show "(\<Sum>s \<leftarrow> ?W. CalculateAllocationAmount e s) \<le> ?A * (1 + ?n / (2 * 10 ^ 16))"
    by (simp add: mult.commute)
qed

text \<open>The theorem at two pending signals of weight 60 each and an account value of 10000.\<close>

theorem CalculateAllocationAmount_weights_witness:
  "live_signals oversubscribed_engine = [pending_signal 1 60, pending_signal 2 60]
   \<and> 0 \<le> AllocationPercentage (pending_signal 1 60)
   \<and> 0 \<le> AllocationPercentage (pending_signal 2 60)
   \<and> 100 < total_percentage oversubscribed_engine
   \<and> 0 \<le> GetAccountValue (brokerage oversubscribed_engine)
   \<and> CalculateAllocationAmount oversubscribed_engine (pending_signal 1 60)
        = Div 60 120 * 10000
   \<and> (\<Sum>s \<leftarrow> weighted_signals oversubscribed_engine.
         CalculateAllocationAmount oversubscribed_engine s)
        \<le> 10000 * (1 + 2 / (2 * 10 ^ 16))"
proof -
  have live: "live_signals oversubscribed_engine = [pending_signal 1 60, pending_signal 2 60]"
    by (simp add: live_signals_def oversubscribed_engine_def pending_signal_def)
  have h: "\<forall>s \<in> set (live_signals oversubscribed_engine). 0 \<le> AllocationPercentage s"
    by (simp add: live pending_signal_def)
  have S: "total_percentage oversubscribed_engine = 120"
    by (simp add: total_percentage_def live pending_signal_def)
  have A: "GetAccountValue (brokerage oversubscribed_engine) = 10000"
    by (simp add: GetAccountValue_def oversubscribed_engine_def)
  have np: "\<not> past_initial_fill oversubscribed_engine (pending_signal i w)" for i w
    by (simp add: past_initial_fill_def pending_signal_def)
  have W: "length (weighted_signals oversubscribed_engine) = 2"
    by (simp add: weighted_signals_def live np)
  from CalculateAllocationAmount_weights [OF h] np [of 1 60]
  show ?thesis by (simp add: live S A W pending_signal_def)
qed

text \<open>
  The claim as first stated fails in three ways. An Active signal of weight 50, one week
  after its buy, is assigned the 5000 of its first lot and not half of the account value
  of 11000. Six pending signals of weight 20 each are assigned
  \<open>0.1666666666666667 \<times> 5000\<close> each, the quotient \<open>20 / 120\<close> being rounded up, and the
  six amounts sum to more than the account value of 5000. And on an account value of
  \<open>-100\<close> a single signal of weight 50 is assigned \<open>-50\<close>, which is more than the
  account value.
\<close>

theorem CalculateAllocationAmount_weights_counterexample:
  "live_signals dip_engine = [dip_signal]
   \<and> 0 \<le> AllocationPercentage dip_signal
   \<and> total_percentage dip_engine \<le> 100
   \<and> AllocationPercentage dip_signal / 100 * GetAccountValue (brokerage dip_engine) = 5500
   \<and> CalculateAllocationAmount dip_engine dip_signal = 5000
   \<and> live_signals six_way_engine = signals six_way_engine
   \<and> map AllocationPercentage (signals six_way_engine) = [20, 20, 20, 20, 20, 20]
   \<and> GetAccountValue (brokerage six_way_engine) = 5000
   \<and> (\<Sum>s \<leftarrow> signals six_way_engine. CalculateAllocationAmount six_way_engine s)
        = 5000 + 1 / 10 ^ 12
   \<and> live_signals overdrawn_engine = [pending_signal 1 50]
   \<and> GetAccountValue (brokerage overdrawn_engine) = - 100
   \<and> CalculateAllocationAmount overdrawn_engine (pending_signal 1 50) = - 50"
proof -
  have o: "live_signals overdrawn_engine = [pending_signal 1 50]
     \<and> GetAccountValue (brokerage overdrawn_engine) = - 100
     \<and> CalculateAllocationAmount overdrawn_engine (pending_signal 1 50) = - 50"
    by (simp add: live_signals_def CalculateAllocationAmount_def overdrawn_engine_def
          pending_signal_def GetAccountValue_def Div_eval Status_defs)
  have d: "live_signals dip_engine = [dip_signal]"
    by (simp add: live_signals_def dip_engine_def dip_signal_def)
  have d1: "total_percentage dip_engine \<le> 100"
    "0 \<le> AllocationPercentage dip_signal"
    "AllocationPercentage dip_signal / 100 * GetAccountValue (brokerage dip_engine) = 5500"
    by (simp_all add: total_percentage_def d)
       (simp_all add: dip_signal_def dip_engine_def GetAccountValue_def)
  have d2: "CalculateAllocationAmount dip_engine dip_signal = 5000"
    by (simp add: CalculateAllocationAmount_def dip_engine_def dip_signal_def first_lot_def
        day_def nanosPerDay_def)
  have s: "live_signals six_way_engine = signals six_way_engine"
    by (simp add: live_signals_def six_way_engine_def pending_signal_def)
  have s1: "map AllocationPercentage (signals six_way_engine) = [20, 20, 20, 20, 20, 20]"
    by (simp add: six_way_engine_def pending_signal_def)
  have A: "GetAccountValue (brokerage six_way_engine) = 5000"
    by (simp add: GetAccountValue_def six_way_engine_def)
  have each: "CalculateAllocationAmount six_way_engine (pending_signal i 20)
                = 1666666666666667 / 2000000000000" for i
    by (simp add: CalculateAllocationAmount_def six_way_engine_def pending_signal_def
          GetAccountValue_def Div_eval Status_defs)
  have sum: "(\<Sum>s \<leftarrow> signals six_way_engine. CalculateAllocationAmount six_way_engine s)
        = 5000 + 1 / 10 ^ 12"
    by (simp add: six_way_engine_def [THEN arg_cong, of signals] each)
  from d d1 d2 s s1 A sum o show ?thesis by simp
qed

section \<open>Properties of the dip buy\<close>

lemma fold_last_buy:
  "fold (\<lambda>dipTrade lastBuy.
           case dipTrade of None \<Rightarrow> lastBuy
           | Some d \<Rightarrow> if BuyDateTime d > lastBuy then BuyDateTime d else lastBuy) ds a
     = fold max [BuyDateTime d. Some d \<leftarrow> ds] a"
  by (induction ds arbitrary: a) (auto simp: max_def split: option.splits)

lemma latest_fill_fold:
  "latest_fill t ds = fold max [BuyDateTime d. Some d \<leftarrow> ds] (BuyDateTime t)"
  unfolding latest_fill_def by (rule Max.set_eq_fold)

text \<open>
  The order of the first conditions shows in what a later step would have raised: a
  failing condition 1 returns false on a zero HighPrice, and a failing condition 2 returns
  false on a nil InitialTrade.
\<close>

lemma CheckDipBuyConditions_short_circuit:
  "map_of (tickerData e) (Ticker s) = None \<Longrightarrow> CheckDipBuyConditions e s = Inr False"
  "map_of (tickerData e) (Ticker s) = Some q \<Longrightarrow> SMA20 q \<le> Price q \<Longrightarrow>
     CheckDipBuyConditions e s = Inr False"
  "map_of (tickerData e) (Ticker s) = Some q \<Longrightarrow> Price q < SMA20 q \<Longrightarrow> HighPrice s = 0 \<Longrightarrow>
     CheckDipBuyConditions e s = Inl PanicDivisionByZero"
  "map_of (tickerData e) (Ticker s) = Some q \<Longrightarrow> Price q < SMA20 q \<Longrightarrow> HighPrice s \<noteq> 0 \<Longrightarrow>
     Div (HighPrice s - Price q) (HighPrice s) * 100 < 10 \<Longrightarrow>
     CheckDipBuyConditions e s = Inr False"
  "map_of (tickerData e) (Ticker s) = Some q \<Longrightarrow> Price q < SMA20 q \<Longrightarrow> HighPrice s \<noteq> 0 \<Longrightarrow>
     10 \<le> Div (HighPrice s - Price q) (HighPrice s) * 100 \<Longrightarrow> InitialTrade s = None \<Longrightarrow>
     CheckDipBuyConditions e s = Inl PanicNilPointer"
  by (simp_all add: CheckDipBuyConditions_def Let_def)

text \<open>
  Claim C3. For every Active signal with an InitialTrade, a quote for the day and a
  positive HighPrice, \<^verbatim>\<open>CheckDipBuyConditions\<close> returns (without a panic) the
  conjunction of the six conditions: (1) the current price is below the 20-day SMA,
  (2) the quotient \<open>(HighPrice - currentPrice) / HighPrice\<close>, rounded to 16 decimal
  places by the decimal division of the code, is at least 10%, (3) the SMA is at least
  the InitialTrade buy price, (4) at least five days have elapsed since the most recent
  fill, (5) the current price is below the InitialTrade buy price, (6) fewer than two
  DipTrades are recorded. So it returns true exactly when all six hold, and any failing
  condition makes it return false. Condition 2 on the rounded quotient is the same as
  \<open>(HighPrice - currentPrice) / HighPrice \<ge> 10% - 5 \<times> 10\<^sup>-\<^sup>1\<^sup>7\<close> on the exact one.
\<close>

theorem CheckDipBuyConditions_six:
  assumes "Status s = StatusActive"
    and "map_of (tickerData e) (Ticker s) = Some q"
    and "0 < HighPrice s"
    and "InitialTrade s = Some t"
  shows "CheckDipBuyConditions e s =
           Inr (Price q < SMA20 q
                \<and> 10 \<le> Div (HighPrice s - Price q) (HighPrice s) * 100
                \<and> BuyPrice t \<le> SMA20 q
                \<and> 5 * nanosPerDay \<le> currentDate e - latest_fill t (DipTrades s)
                \<and> Price q < BuyPrice t
                \<and> length (DipTrades s) < 2)
         \<and> (10 \<le> Div (HighPrice s - Price q) (HighPrice s) * 100)
             = (10 / 100 - 5 / 10 ^ 17 \<le> (HighPrice s - Price q) / HighPrice s)"
proof -
  have last: "fold (\<lambda>dipTrade lastBuy.
           case dipTrade of None \<Rightarrow> lastBuy
           | Some d \<Rightarrow> if BuyDateTime d > lastBuy then BuyDateTime d else lastBuy)
          (DipTrades s) (BuyDateTime t) = latest_fill t (DipTrades s)"
    by (simp only: fold_last_buy latest_fill_fold)
  from assms(3) have nz: "HighPrice s \<noteq> 0" by simp
  have six: "CheckDipBuyConditions e s =
           Inr (Price q < SMA20 q
                \<and> 10 \<le> Div (HighPrice s - Price q) (HighPrice s) * 100
                \<and> BuyPrice t \<le> SMA20 q
                \<and> 5 * nanosPerDay \<le> currentDate e - latest_fill t (DipTrades s)
                \<and> Price q < BuyPrice t
                \<and> length (DipTrades s) < 2)"
    unfolding CheckDipBuyConditions_def
    by (simp only: assms(2,4) option.case Let_def last nz if_False) auto
  have "(10 \<le> Div (HighPrice s - Price q) (HighPrice s) * 100)
          = (1 / 10 - 1 / (2 * 10 ^ 16) \<le> (HighPrice s - Price q) / HighPrice s)"
    by (rule Div_tenth_iff)
  then have drop: "(10 \<le> Div (HighPrice s - Price q) (HighPrice s) * 100)
          = (10 / 100 - 5 / 10 ^ 17 \<le> (HighPrice s - Price q) / HighPrice s)"
    by simp
  from six drop show ?thesis by (rule conjI)
qed

text \<open>The theorem at a signal bought at 100, with a high of 120, on a day at 95 under an SMA of 105, a week after the buy.\<close>

theorem CheckDipBuyConditions_six_witness:
  "Status dip_signal = StatusActive
   \<and> map_of (tickerData dip_engine) (Ticker dip_signal) = Some \<lparr>Price = 95, SMA20 = 105\<rparr>
   \<and> 0 < HighPrice dip_signal
   \<and> InitialTrade dip_signal = Some first_lot
   \<and> 10 / 100 - 5 / 10 ^ 17 \<le> (HighPrice dip_signal - 95) / HighPrice dip_signal
   \<and> CheckDipBuyConditions dip_engine dip_signal = Inr True"
proof -
  have h1: "Status dip_signal = StatusActive"
    and h2: "map_of (tickerData dip_engine) (Ticker dip_signal) = Some \<lparr>Price = 95, SMA20 = 105\<rparr>"
    and h3: "0 < HighPrice dip_signal"
    and h4: "InitialTrade dip_signal = Some first_lot"
    by (simp_all add: dip_signal_def dip_engine_def)
  have drop: "10 / 100 - 5 / 10 ^ 17 \<le> (HighPrice dip_signal - 95) / HighPrice dip_signal"
    by (simp add: dip_signal_def)
  have rest: "Price \<lparr>Price = 95, SMA20 = 105\<rparr> < SMA20 \<lparr>Price = 95, SMA20 = 105\<rparr>
     \<and> BuyPrice first_lot \<le> SMA20 \<lparr>Price = 95, SMA20 = 105\<rparr>
     \<and> 5 * nanosPerDay \<le> currentDate dip_engine - latest_fill first_lot (DipTrades dip_signal)
     \<and> Price \<lparr>Price = 95, SMA20 = 105\<rparr> < BuyPrice first_lot
     \<and> length (DipTrades dip_signal) < 2"
    by (simp add: dip_signal_def dip_engine_def first_lot_def latest_fill_def day_def
          nanosPerDay_def)
  from CheckDipBuyConditions_six [OF h1 h2 h3 h4] drop rest h1 h2 h3 h4
  show ?thesis by simp
qed

text \<open>
  The claim as first stated, with condition 2 on the exact quotient, fails at a signal
  whose high is 100 on a day at \<open>90.000000000000001\<close>: the other five conditions hold
  and the drop from the high is \<open>9.999999999999999%\<close>, below 10%, yet the quotient is
  rounded up to \<open>0.1\<close> at the sixteenth digit and \<^verbatim>\<open>CheckDipBuyConditions\<close> returns
  true.
\<close>

theorem CheckDipBuyConditions_six_counterexample:
  "Status shallow_dip_signal = StatusActive
   \<and> map_of (tickerData shallow_dip_engine) (Ticker shallow_dip_signal)
       = Some \<lparr>Price = 90 + 1 / 10 ^ 15, SMA20 = 105\<rparr>
   \<and> 0 < HighPrice shallow_dip_signal
   \<and> InitialTrade shallow_dip_signal = Some first_lot
   \<and> 90 + 1 / 10 ^ 15 < (105 :: decimal)
   \<and> (HighPrice shallow_dip_signal - (90 + 1 / 10 ^ 15)) / HighPrice shallow_dip_signal
       = 9999999999999999 / 10 ^ 17
   \<and> (HighPrice shallow_dip_signal - (90 + 1 / 10 ^ 15)) / HighPrice shallow_dip_signal
       < 10 / 100
   \<and> BuyPrice first_lot \<le> 105
   \<and> 5 * nanosPerDay
       \<le> currentDate shallow_dip_engine - latest_fill first_lot (DipTrades shallow_dip_signal)
   \<and> 90 + 1 / 10 ^ 15 < BuyPrice first_lot
   \<and> length (DipTrades shallow_dip_signal) < 2
   \<and> CheckDipBuyConditions shallow_dip_engine shallow_dip_signal = Inr True"
  by (simp add: CheckDipBuyConditions_def shallow_dip_engine_def shallow_dip_signal_def
        first_lot_def latest_fill_def day_def nanosPerDay_def Div_eval)

text \<open>
  Claim C4. For every Active signal with an InitialTrade, on a tick whose date is strictly
  after the InitialTrade's buy date, \<^verbatim>\<open>CalculateAllocationAmount\<close> returns the
  InitialTrade's cost, whatever the signals and the ledger of the engine are (neither the
  weights nor the account value are consulted), and a dip buy that \<^verbatim>\<open>ExecuteDipBuy\<close>
  executes appends one DipTrade whose cost is the InitialTrade's cost.
\<close>

theorem dip_buy_allocation:
  assumes "Status s = StatusActive"
    and "InitialTrade s = Some t"
    and "BuyDateTime t < currentDate e"
  shows "CalculateAllocationAmount e s = Cost t
         \<and> CalculateAllocationAmount (e\<lparr>signals := sigs, brokerage := b\<rparr>) s = Cost t
         \<and> (\<forall>b' s'. ExecuteDipBuy e s = (None, b', s') \<longrightarrow>
               (\<exists>d. DipTrades s' = DipTrades s @ [Some d] \<and> Cost d = Cost t
                     \<and> InitialTrade s' = Some t))"
proof -
  have c: "CalculateAllocationAmount e s = Cost t"
    using assms by (rule CalculateAllocationAmount_dip)
  have c': "CalculateAllocationAmount (e\<lparr>signals := sigs, brokerage := b\<rparr>) s = Cost t"
    using assms by (intro CalculateAllocationAmount_dip) simp_all
  have "\<exists>d. DipTrades s' = DipTrades s @ [Some d] \<and> Cost d = Cost t \<and> InitialTrade s' = Some t"
    if "ExecuteDipBuy e s = (None, b', s')" for b' s'
    using that assms(2) unfolding ExecuteDipBuy_def
    by (auto simp: Let_def c split: option.splits if_splits prod.splits)
  with c c' show ?thesis by blast
qed

text \<open>The theorem at the same signal and day: the dip buy is executed and its lot costs the 5000 of the first lot.\<close>

theorem dip_buy_allocation_witness:
  "Status dip_signal = StatusActive
   \<and> InitialTrade dip_signal = Some first_lot
   \<and> BuyDateTime first_lot < currentDate dip_engine
   \<and> CalculateAllocationAmount dip_engine dip_signal = 5000
   \<and> fst (ExecuteDipBuy dip_engine dip_signal) = None
   \<and> map (map_option Cost) (DipTrades (snd (snd (ExecuteDipBuy dip_engine dip_signal))))
        = [Some (Cost first_lot)]"
proof -
  have h1: "Status dip_signal = StatusActive"
    and h2: "InitialTrade dip_signal = Some first_lot"
    and h3: "BuyDateTime first_lot < currentDate dip_engine"
    by (simp_all add: dip_signal_def dip_engine_def first_lot_def day_def nanosPerDay_def)
  note t = dip_buy_allocation [OF h1 h2 h3, where sigs = "signals dip_engine" and b = "brokerage dip_engine"]
  from t have c: "CalculateAllocationAmount dip_engine dip_signal = 5000"
    by (simp add: first_lot_def)
  have ok: "fst (ExecuteDipBuy dip_engine dip_signal) = None"
    by (simp add: ExecuteDipBuy_def CalculateAllocationAmount_def ExecuteBuyOrder_def Div_eval
          dip_engine_def dip_signal_def first_lot_def day_def nanosPerDay_def)
  then obtain b' s' where r: "ExecuteDipBuy dip_engine dip_signal = (None, b', s')"
    by (cases "ExecuteDipBuy dip_engine dip_signal") auto
  with t obtain d where "DipTrades s' = DipTrades dip_signal @ [Some d]" "Cost d = Cost first_lot"
    by blast
  with r h1 h2 h3 c show ?thesis by (simp add: dip_signal_def)
qed

section \<open>Properties of a tick\<close>

lemma ExecuteBuy_keeps:
  "ExecuteBuy e s = (r, b', s') \<Longrightarrow> Ticker s' = Ticker s \<and> HighPrice s' = HighPrice s"
  unfolding ExecuteBuy_def
  by (auto simp: Let_def split: option.splits if_splits prod.splits)

lemma ExecuteDipBuy_keeps:
  "ExecuteDipBuy e s = (r, b', s') \<Longrightarrow> Ticker s' = Ticker s \<and> HighPrice s' = HighPrice s"
  unfolding ExecuteDipBuy_def
  by (auto simp: Let_def split: option.splits if_splits prod.splits)

lemma ExecuteSell_keeps:
  "ExecuteSell e s = (r, b', s') \<Longrightarrow> Ticker s' = Ticker s \<and> HighPrice s' = HighPrice s"
  unfolding ExecuteSell_def
  by (auto simp: Let_def split: option.splits if_splits prod.splits sum.splits)

lemma run_signal_keeps:
  assumes "run_signal e s = (r, b', s')"
  shows "Ticker s' = Ticker s \<and> HighPrice s' = HighPrice s"
  using assms unfolding run_signal_def
  by (auto split: if_splits option.splits sum.splits bool.splits
        dest: ExecuteBuy_keeps ExecuteDipBuy_keeps ExecuteSell_keeps)

lemma map_update_same:
  assumes "f y = f (xs ! i)"
  shows "map f (xs[i := y]) = map f xs"
proof (cases "i < length xs")
  case True
  with assms show ?thesis by (simp add: map_update list_update_same_conv)
next
  case False
  then have "xs[i := y] = xs" by (simp add: list_update_beyond)
  then show ?thesis by simp
qed

lemma run_loop_keeps:
  assumes "run_loop e is = Inr e'"
  shows "tickerData e' = tickerData e
         \<and> map Ticker (signals e') = map Ticker (signals e)
         \<and> map HighPrice (signals e') = map HighPrice (signals e)"
  using assms
proof (induction "is" arbitrary: e)
  case Nil
  then show ?case by simp
next
  case (Cons i rest)
  obtain r b' s' where step: "run_signal e (signals e ! i) = (r, b', s')"
    by (cases "run_signal e (signals e ! i)") auto
  let ?e1 = "e\<lparr>brokerage := b', signals := (signals e)[i := s']\<rparr>"
  from Cons.prems step have rest: "run_loop ?e1 rest = Inr e'"
    by (auto split: option.splits if_splits)
  from run_signal_keeps [OF step]
  have same: "Ticker s' = Ticker (signals e ! i)" "HighPrice s' = HighPrice (signals e ! i)"
    by simp_all
  have "map Ticker ((signals e)[i := s']) = map Ticker (signals e)"
       "map HighPrice ((signals e)[i := s']) = map HighPrice (signals e)"
    by (simp_all add: map_update_same same)
  with Cons.IH [OF rest] show ?case by simp
qed

lemma UpdateSignalsHighPrice_nth:
  assumes "i < length (signals e)"
  shows "HighPrice (signals (UpdateSignalsHighPrice e) ! i) = raised_high (tickerData e) (signals e ! i)"
    and "Status (signals (UpdateSignalsHighPrice e) ! i) = Status (signals e ! i)"
  using assms
  by (auto simp: UpdateSignalsHighPrice_def raised_high_def max_def split: option.splits)

text \<open>
  Claim C5, as amended. Once per tick, after all transitions have been processed, every
  signal whose ticker has a quote for the day, whatever its status (Pending and Sold
  included), has its HighPrice raised to the maximum of its prior HighPrice and the day's
  price; a signal whose ticker has no quote keeps its HighPrice. The transitions of the
  tick do not change any HighPrice.
\<close>

theorem Run_high_price:
  assumes "Run e = Inr e'"
  shows "length (signals e') = length (signals e)
         \<and> (\<forall>i < length (signals e).
               HighPrice (signals e' ! i) = raised_high (tickerData e) (signals e ! i))"
proof -
  from assms obtain e1 where loop: "run_loop e [0..<length (signals e)] = Inr e1"
    and e': "e' = UpdateSignalsHighPrice e1"
    by (auto simp: Run_def split: sum.splits)
  from run_loop_keeps [OF loop]
  have td: "tickerData e1 = tickerData e"
    and tk: "map Ticker (signals e1) = map Ticker (signals e)"
    and hp: "map HighPrice (signals e1) = map HighPrice (signals e)"
    by simp_all
  from tk have len: "length (signals e1) = length (signals e)"
    by (rule map_eq_imp_length_eq)
  have "HighPrice (signals e' ! i) = raised_high (tickerData e) (signals e ! i)"
    if i: "i < length (signals e)" for i
  proof -
    from i len have i1: "i < length (signals e1)" by simp
    have "Ticker (signals e1 ! i) = Ticker (signals e ! i)"
      using tk i i1 by (metis nth_map)
    moreover have "HighPrice (signals e1 ! i) = HighPrice (signals e ! i)"
      using hp i i1 by (metis nth_map)
    ultimately have "raised_high (tickerData e1) (signals e1 ! i) = raised_high (tickerData e) (signals e ! i)"
      by (simp add: raised_high_def td split: option.splits)
    with UpdateSignalsHighPrice_nth(1) [OF i1] show ?thesis by (simp add: e')
  qed
  moreover have "length (signals e') = length (signals e)"
    by (simp add: e' UpdateSignalsHighPrice_def len)
  ultimately show ?thesis by blast
qed

text \<open>The theorem at a tick with an active signal whose ticker is quoted at 130 and a sold signal without a quote.\<close>

theorem Run_high_price_witness:
  "Run holding_engine =
     Inr (holding_engine\<lparr>signals := [dip_signal\<lparr>HighPrice := 130\<rparr>, sold_signal]\<rparr>)
   \<and> raised_high (tickerData holding_engine) dip_signal = 130
   \<and> raised_high (tickerData holding_engine) sold_signal = HighPrice sold_signal"
proof -
  have r: "Run holding_engine =
     Inr (holding_engine\<lparr>signals := [dip_signal\<lparr>HighPrice := 130\<rparr>, sold_signal]\<rparr>)"
    by (simp add: Run_def run_signal_def CheckDipBuyConditions_def UpdateSignalsHighPrice_def
          holding_engine_def dip_signal_def sold_signal_def day_def nanosPerDay_def upt_rec
          Status_defs)
  note t = Run_high_price [OF r, THEN conjunct2, rule_format]
  have "HighPrice ([dip_signal\<lparr>HighPrice := 130\<rparr>, sold_signal] ! 0)
       = raised_high (tickerData holding_engine) (signals holding_engine ! 0)"
    "HighPrice ([dip_signal\<lparr>HighPrice := 130\<rparr>, sold_signal] ! 1)
       = raised_high (tickerData holding_engine) (signals holding_engine ! 1)"
    using t [of 0] t [of 1] by (simp_all add: holding_engine_def)
  then show ?thesis using r by (simp add: holding_engine_def)
qed

text \<open>The claim as first stated, that the tick does not change the HighPrice of a signal
  that is not Active, fails at a pending signal whose buy date lies ahead: the tick raises
  its HighPrice from 0 to the day's price.\<close>

theorem Run_high_price_counterexample:
  "Status waiting_signal = StatusPending
   \<and> HighPrice waiting_signal = 0
   \<and> Run waiting_engine = Inr (waiting_engine\<lparr>signals := [waiting_signal\<lparr>HighPrice := 100\<rparr>]\<rparr>)"
  by (simp add: Run_def run_signal_def UpdateSignalsHighPrice_def waiting_engine_def
        waiting_signal_def day_def nanosPerDay_def upt_rec Status_defs)

subsection \<open>A signal of weight zero\<close>

text \<open>
  A signal of weight zero is bought as a lot of zero shares and a position of zero
  shares. Its exit then always returns the error that there are no shares to sell (the
  second state of the counterexample of claim C1), and its first dip buy divides by a
  share count of zero and ends the run (the second order of the counterexample of claim
  C10).
\<close>

lemma zero_weight_buy:
  "Run zero_weight_engine =
     Inr (zero_weight_engine\<lparr>signals := [zero_lot_signal], brokerage := brokerage zero_lot_engine\<rparr>)"
  by (simp add: Run_def run_signal_def ExecuteBuy_def CalculateAllocationAmount_def
        ExecuteBuyOrder_def GetAccountValue_def UpdateSignalsHighPrice_def Div_eval Status_defs
        zero_weight_engine_def zero_lot_signal_def zero_lot_engine_def day_def nanosPerDay_def
        upt_rec)

lemma zero_lot_dip_buy_panics:
  "CheckDipBuyConditions zero_lot_dip_engine zero_lot_signal = Inr True
   \<and> Run zero_lot_dip_engine = Inl PanicDivisionByZero"
  by (simp add: Run_def run_signal_def CheckDipBuyConditions_def ExecuteDipBuy_def
        CalculateAllocationAmount_def ExecuteBuyOrder_def Div_eval Status_defs
        zero_lot_dip_engine_def zero_lot_signal_def zero_lot_engine_def day_def nanosPerDay_def
        upt_rec)

section \<open>Properties of the float rounding\<close>

text \<open>
  The exponent is the one of the binary representation, and a rounded number lies within
  half a unit in the last of the 53 places of the number it rounds; the constants are
  the binary64 numbers of \<open>0.1\<close>, \<open>0.15\<close> and \<open>0.99\<close>.
\<close>

lemma pow2_pos: "0 < pow2 e"
  by (simp add: pow2_def)

lemma pow2_nat: "0 \<le> e \<Longrightarrow> pow2 e = 2 ^ nat e"
  by (simp add: pow2_def)

lemma pow2_Suc: "pow2 (e + 1) = 2 * pow2 e"
proof (cases "0 \<le> e")
  case True
  then show ?thesis by (simp add: pow2_def nat_add_distrib)
next
  case False
  then have "nat (- e) = Suc (nat (- (e + 1)))" by simp
  with False show ?thesis by (auto simp: pow2_def)
qed

lemma exponent64_bounds:
  assumes "x \<noteq> 0"
  shows "pow2 (exponent64 x) \<le> \<bar>x\<bar> \<and> \<bar>x\<bar> < pow2 (exponent64 x + 1)"
proof -
  define a where "a = \<bar>x\<bar>"
  from assms have a: "0 < a" by (simp add: a_def)
  show ?thesis
  proof (cases "1 \<le> a")
    case True
    define n where "n = \<lfloor>a\<rfloor>"
    from True have n: "0 < n" by (simp add: n_def)
    have na: "of_int n \<le> a" "a < of_int n + 1" unfolding n_def by linarith+
    from bitlen_bounds [OF n] have b: "2 ^ nat (bitlen n - 1) \<le> n" "n < 2 ^ nat (bitlen n)" by simp_all
    from n have b1: "1 \<le> bitlen n" by (simp add: bitlen_alt_def)
    have e: "exponent64 x = bitlen n - 1"
      using True by (simp add: exponent64_def a_def [symmetric] n_def)
    have lo: "pow2 (bitlen n - 1) \<le> a"
    proof -
      have "pow2 (bitlen n - 1) = of_int (2 ^ nat (bitlen n - 1))" using b1 by (simp add: pow2_def)
      also have "\<dots> \<le> of_int n" using b(1) by (simp only: of_int_le_iff)
      finally show ?thesis using na(1) by linarith
    qed
    have hi: "a < pow2 (bitlen n - 1 + 1)"
    proof -
      from b(2) have "n + 1 \<le> 2 ^ nat (bitlen n)" by simp
      then have "(of_int (n + 1) :: rat) \<le> of_int (2 ^ nat (bitlen n))" by (simp only: of_int_le_iff)
      also have "\<dots> = 2 ^ nat (bitlen n)" by simp
      finally have "(of_int n + 1 :: rat) \<le> 2 ^ nat (bitlen n)" by simp
      moreover have "pow2 (bitlen n - 1 + 1) = 2 ^ nat (bitlen n)" using b1 by (simp add: pow2_def)
      ultimately show ?thesis using na(2) by linarith
    qed
    from lo hi show ?thesis unfolding e a_def by simp
  next
    case False
    define n where "n = \<lfloor>1 / a\<rfloor>"
    from False a have inv: "1 \<le> 1 / a" by (simp add: divide_simps)
    then have n: "0 < n" by (simp add: n_def)
    have na: "of_int n \<le> 1 / a" "1 / a < of_int n + 1" unfolding n_def by linarith+
    define b where "b = bitlen n"
    from bitlen_bounds [OF n] have bb: "2 ^ nat (b - 1) \<le> n" "n < 2 ^ nat b" by (simp_all add: b_def)
    from n have b1: "1 \<le> b" by (simp add: bitlen_alt_def b_def)
    have lo_inv: "(2 :: rat) ^ nat (b - 1) \<le> 1 / a"
    proof -
      have "(2 :: rat) ^ nat (b - 1) = of_int (2 ^ nat (b - 1))" by simp
      also have "\<dots> \<le> of_int n" using bb(1) by (simp only: of_int_le_iff)
      also have "\<dots> \<le> 1 / a" by (rule na(1))
      finally show ?thesis .
    qed
    have hi_inv: "1 / a < (2 :: rat) ^ nat b"
    proof -
      from bb(2) have "n + 1 \<le> 2 ^ nat b" by simp
      then have "(of_int (n + 1) :: rat) \<le> of_int (2 ^ nat b)" by (simp only: of_int_le_iff)
      also have "\<dots> = 2 ^ nat b" by simp
      finally have "(of_int n + 1 :: rat) \<le> 2 ^ nat b" by simp
      with na(2) show ?thesis by linarith
    qed
    from lo_inv a have up: "a * 2 ^ nat (b - 1) \<le> 1"
      by (simp add: divide_simps mult.commute)
    from hi_inv a have down: "1 < a * 2 ^ nat b"
      by (simp add: divide_simps mult.commute)
    have two: "(2 :: rat) ^ nat b = 2 * 2 ^ nat (b - 1)"
    proof -
      from b1 have "nat b = Suc (nat (b - 1))" by simp
      then show ?thesis by simp
    qed
    show ?thesis
    proof (cases "1 \<le> a * 2 ^ nat (b - 1)")
      case True
      with up have eq: "a * 2 ^ nat (b - 1) = 1" by simp
      from True False have bne: "b \<noteq> 1" by auto
      with b1 have b2: "2 \<le> b" by simp
      have e: "exponent64 x = - (b - 1)"
        using False True by (simp add: exponent64_def a_def [symmetric] n_def b_def Let_def)
      have p: "pow2 (- (b - 1)) = 1 / 2 ^ nat (b - 1)" using b2 by (simp add: pow2_def)
      from eq have aval: "a = 1 / 2 ^ nat (b - 1)" by (simp add: divide_simps)
      from p aval have pa: "pow2 (- (b - 1)) = a" by simp
      have "pow2 (- (b - 1) + 1) = 2 * pow2 (- (b - 1))" by (rule pow2_Suc)
      then have "pow2 (- (b - 1) + 1) = 2 * a" by (simp only: pa)
      moreover have "a < 2 * a" using a by simp
      ultimately have "a < pow2 (- (b - 1) + 1)" by simp
      moreover from pa have "pow2 (- (b - 1)) \<le> a" by simp
      ultimately show ?thesis unfolding e a_def by simp
    next
      case F2: False
      have e: "exponent64 x = - b"
        using False F2 by (simp add: exponent64_def a_def [symmetric] n_def b_def Let_def)
      have p: "pow2 (- b) = 1 / 2 ^ nat b" using b1 by (simp add: pow2_def)
      from down a have lo: "pow2 (- b) \<le> a" unfolding p by (simp add: divide_simps)
      have "pow2 (- b + 1) = 2 * pow2 (- b)" by (rule pow2_Suc)
      also have "\<dots> = 1 / 2 ^ nat (b - 1)" unfolding p two by simp
      finally have p1: "pow2 (- b + 1) = 1 / 2 ^ nat (b - 1)" .
      from F2 have "a < pow2 (- b + 1)" unfolding p1 by (simp add: divide_simps)
      with lo show ?thesis unfolding e a_def by simp
    qed
  qed
qed

lemma round_half_even_close: "\<bar>of_int (round_half_even x) - x\<bar> \<le> 1 / 2"
proof -
  have "of_int \<lfloor>x\<rfloor> \<le> x" "x < of_int \<lfloor>x\<rfloor> + 1" by linarith+
  then show ?thesis
    by (auto simp: round_half_even_def Let_def abs_le_iff)
qed

lemma round64_close:
  assumes "x \<noteq> 0"
  shows "\<bar>round64 x - x\<bar> \<le> pow2 (exponent64 x - 52) / 2"
proof -
  define u where "u = pow2 (exponent64 x - 52)"
  have u: "0 < u" by (simp add: u_def pow2_pos)
  have "round64 x - x = (of_int (round_half_even (x / u)) - x / u) * u"
    using assms u by (simp add: round64_def u_def [symmetric] Let_def left_diff_distrib)
  then have "\<bar>round64 x - x\<bar> = \<bar>of_int (round_half_even (x / u)) - x / u\<bar> * u"
    using u by (simp add: abs_mult)
  also have "\<dots> \<le> (1 / 2) * u"
    using u by (intro mult_right_mono round_half_even_close) simp
  finally show ?thesis by (simp add: u_def)
qed

lemma round64_constants:
  "round64 (1 / 10) = 3602879701896397 / 2 ^ 55"
  "round64 (15 / 100) = 5404319552844595 / 2 ^ 55"
  "round64 (99 / 100) = 4458563631096791 / 2 ^ 52"
  "round64 100 = 100"
  by code_simp+

section \<open>Properties of the exit simulations\<close>

lemma find_map: "find P (map f xs) = map_option f (find (P \<circ> f) xs)"
  by (induction xs) auto

lemma find_upt_Suc:
  "find P [0..<Suc n] = (if P 0 then Some 0 else map_option Suc (find (P \<circ> Suc) [0..<n]))"
proof -
  have "[0..<Suc n] = 0 # map Suc [0..<n]"
    by (simp only: upt_conv_Cons [OF zero_less_Suc] map_Suc_upt)
  then show ?thesis by (simp add: find_map)
qed

lemma exit_day_Suc:
  "exit_day hit (Suc n) =
     (if hit 0 \<or> n = 0 then 0 else Suc (exit_day (hit \<circ> Suc) n))"
  unfolding exit_day_def find_upt_Suc
  by (cases n) (auto split: option.splits)

lemma simple_loop_exit:
  assumes "ps \<noteq> []" "trailingStopLevel st = fmul (highestPrice st) (fsub 1 pct)"
    and "k = exit_day (\<lambda>k. ps ! k \<le> fmul (fold max (take k ps) (highestPrice st)) (fsub 1 pct)) (length ps)"
  shows "finalPrice (simple_trailing_loop i pct ps st) = ps ! k
         \<and> maxGain (simple_trailing_loop i pct ps st) = fold max (map (gain i) (take (Suc k) ps)) (maxGain st)
         \<and> maxDrawdown (simple_trailing_loop i pct ps st) = fold min (map (gain i) (take (Suc k) ps)) (maxDrawdown st)"
  using assms(1,2) unfolding assms(3)
proof (induction ps arbitrary: st)
  case Nil
  then show ?case by simp
next
  case (Cons p rest)
  show ?case
  proof (cases "p \<le> trailingStopLevel st \<or> rest = []")
    case True
    then show ?thesis using Cons.prems(2)
      by (auto simp: exit_day_Suc Let_def gain_def max_def min_def)
  next
    case False
    define st4 where "st4 = (let currentGain = fmul (fdiv (fsub p i) i) 100;
          st1 = (if currentGain > maxGain st then st\<lparr>maxGain := currentGain\<rparr> else st);
          st2 = (if currentGain < maxDrawdown st1 then st1\<lparr>maxDrawdown := currentGain\<rparr> else st1);
          st3 = (if p > highestPrice st2
                      then st2\<lparr>highestPrice := p, trailingStopLevel := fmul p (fsub 1 pct)\<rparr>
                      else st2) in st3)"
    have loop: "simple_trailing_loop i pct (p # rest) st = simple_trailing_loop i pct rest st4"
      using False by (simp add: st4_def Let_def)
    have st4: "highestPrice st4 = max p (highestPrice st)"
        "trailingStopLevel st4 = fmul (highestPrice st4) (fsub 1 pct)"
        "maxGain st4 = max (gain i p) (maxGain st)"
        "maxDrawdown st4 = min (gain i p) (maxDrawdown st)"
      using Cons.prems(2) by (auto simp: st4_def Let_def gain_def max_def min_def)
    from False have rest: "rest \<noteq> []" by simp
    have hit: "(\<lambda>k. (p # rest) ! k \<le> fmul (fold max (take k (p # rest)) (highestPrice st)) (fsub 1 pct)) \<circ> Suc
             = (\<lambda>k. rest ! k \<le> fmul (fold max (take k rest) (highestPrice st4)) (fsub 1 pct))"
      by (rule ext) (simp add: st4)
    have k: "exit_day (\<lambda>k. (p # rest) ! k \<le> fmul (fold max (take k (p # rest)) (highestPrice st)) (fsub 1 pct))
               (length (p # rest))
             = Suc (exit_day (\<lambda>k. rest ! k \<le> fmul (fold max (take k rest) (highestPrice st4)) (fsub 1 pct))
                      (length rest))"
      using False Cons.prems(2) by (simp add: exit_day_Suc hit)
    show ?thesis
      unfolding loop k using Cons.IH [OF rest st4(2)] by (simp add: st4)
  qed
qed

lemma trailing_loop_exit:
  assumes "ps \<noteq> []" "trailingStopLevel st = fmul (highestPrice st) (fsub 1 pct)"
    and "k = exit_day (\<lambda>k. ps ! k \<le> fmul (fold max (take (Suc k) ps) (highestPrice st)) (fsub 1 pct)) (length ps)"
  shows "finalPrice (trailing_loop i target pct ps st) = ps ! k
         \<and> maxGain (trailing_loop i target pct ps st) = fold max (map (gain i) (take (Suc k) ps)) (maxGain st)
         \<and> maxDrawdown (trailing_loop i target pct ps st) = fold min (map (gain i) (take (Suc k) ps)) (maxDrawdown st)"
  using assms(1,2) unfolding assms(3)
proof (induction ps arbitrary: st)
  case Nil
  then show ?case by simp
next
  case (Cons p rest)
  define st4 where "st4 = (let currentGain = fmul (fdiv (fsub p i) i) 100;
          st1 = (if currentGain > maxGain st then st\<lparr>maxGain := currentGain\<rparr> else st);
          st2 = (if currentGain < maxDrawdown st1 then st1\<lparr>maxDrawdown := currentGain\<rparr> else st1);
          st3 = (if p \<ge> target
                 then st2\<lparr>takeProfitHit := True,
                         exitStrategy := ''Take profit triggered, trailing stop active''\<rparr>
                 else st2);
          st4 = (if p > highestPrice st3
                 then st3\<lparr>highestPrice := p, trailingStopLevel := fmul p (fsub 1 pct)\<rparr>
                 else st3) in st4)"
  have st4: "highestPrice st4 = max p (highestPrice st)"
        "trailingStopLevel st4 = fmul (highestPrice st4) (fsub 1 pct)"
        "maxGain st4 = max (gain i p) (maxGain st)"
        "maxDrawdown st4 = min (gain i p) (maxDrawdown st)"
    using Cons.prems(2) by (auto simp: st4_def Let_def gain_def max_def min_def)
  have step: "trailing_loop i target pct (p # rest) st =
      (if p \<le> trailingStopLevel st4
       then st4\<lparr>finalPrice := p,
               exitStrategy := (if takeProfitHit st4 then ''Trailing stop hit (after take profit)''
                                else ''Trailing stop hit (before take profit)'')\<rparr>
       else trailing_loop i target pct rest
              (if rest = []
               then st4\<lparr>finalPrice := p,
                       exitStrategy := (if exitStrategy st4 = [] then ''Held until sell date''
                                        else exitStrategy st4)\<rparr>
               else st4))"
    by (simp only: trailing_loop.simps st4_def Let_def)
  show ?case
  proof (cases "p \<le> trailingStopLevel st4 \<or> rest = []")
    case True
    have "trailing_loop i target pct (p # rest) st =
            (if p \<le> trailingStopLevel st4
             then st4\<lparr>finalPrice := p,
                     exitStrategy := (if takeProfitHit st4 then ''Trailing stop hit (after take profit)''
                                      else ''Trailing stop hit (before take profit)'')\<rparr>
             else st4\<lparr>finalPrice := p,
                     exitStrategy := (if exitStrategy st4 = [] then ''Held until sell date''
                                      else exitStrategy st4)\<rparr>)"
      using True by (simp only: step) auto
    moreover have "exit_day (\<lambda>k. (p # rest) ! k
                       \<le> fmul (fold max (take (Suc k) (p # rest)) (highestPrice st)) (fsub 1 pct))
                     (length (p # rest)) = 0"
      using True by (auto simp: exit_day_Suc st4)
    ultimately show ?thesis by (simp add: st4)
  next
    case False
    have loop: "trailing_loop i target pct (p # rest) st = trailing_loop i target pct rest st4"
      using False by (simp only: step) auto
    from False have rest: "rest \<noteq> []" by simp
    have hit: "(\<lambda>k. (p # rest) ! k \<le> fmul (fold max (take (Suc k) (p # rest)) (highestPrice st)) (fsub 1 pct)) \<circ> Suc
             = (\<lambda>k. rest ! k \<le> fmul (fold max (take (Suc k) rest) (highestPrice st4)) (fsub 1 pct))"
      by (rule ext) (simp add: st4)
    have k: "exit_day (\<lambda>k. (p # rest) ! k \<le> fmul (fold max (take (Suc k) (p # rest)) (highestPrice st)) (fsub 1 pct))
               (length (p # rest))
             = Suc (exit_day (\<lambda>k. rest ! k \<le> fmul (fold max (take (Suc k) rest) (highestPrice st4)) (fsub 1 pct))
                      (length rest))"
    proof -
      have "\<not> ((p # rest) ! 0 \<le> fmul (fold max (take (Suc 0) (p # rest)) (highestPrice st)) (fsub 1 pct))"
        using False by (simp add: st4)
      moreover have "length rest \<noteq> 0" using rest by simp
      ultimately show ?thesis
        by (simp only: length_Cons exit_day_Suc hit if_False simp_thms)
    qed
    show ?thesis
      unfolding loop k using Cons.IH [OF rest st4(2)] by (simp add: st4)
  qed
qed

lemma max_gain_upto_fold:
  "max_gain_upto i ps k = fold max (map (gain i) (take (Suc k) ps)) 0"
  unfolding max_gain_upto_def by (rule Max.set_eq_fold)

lemma max_drawdown_upto_fold:
  "max_drawdown_upto i ps k = fold min (map (gain i) (take (Suc k) ps)) 0"
  unfolding max_drawdown_upto_def by (rule Min.set_eq_fold)

text \<open>
  Claim C6, as amended. For every non-zero entry price and non-empty daily price series,
  each exit-simulation strategy (simple trailing stop, and take-profit + trailing stop)
  returns the price of its exit day, and a maximum gain% and a maximum drawdown% computed
  relative to the entry price over the days up to and including the exit day: the first
  day whose price is at or below the stop level (the highest price so far, the entry
  price included, times one minus the stop percentage; the simple strategy tests the stop
  before the day's price can raise the high, the other after), or the last day when there
  is none. Days after the exit day do not contribute.
\<close>

theorem exit_simulation_extrema:
  assumes "dailyPrices \<noteq> []"
    and "initialPrice \<noteq> 0"
  shows "(\<exists>reason.
            simulateSimpleTrailingStop initialPrice dailyPrices trailingStopPct =
              (dailyPrices ! exit_day (simple_stop_hit initialPrice trailingStopPct dailyPrices)
                               (length dailyPrices),
               reason,
               max_gain_upto initialPrice dailyPrices
                 (exit_day (simple_stop_hit initialPrice trailingStopPct dailyPrices)
                    (length dailyPrices)),
               max_drawdown_upto initialPrice dailyPrices
                 (exit_day (simple_stop_hit initialPrice trailingStopPct dailyPrices)
                    (length dailyPrices))))
         \<and> (\<exists>reason.
            simulateTrailingStop initialPrice dailyPrices takeProfitPct trailingStopPct =
              (dailyPrices ! exit_day (trailing_stop_hit initialPrice trailingStopPct dailyPrices)
                               (length dailyPrices),
               reason,
               max_gain_upto initialPrice dailyPrices
                 (exit_day (trailing_stop_hit initialPrice trailingStopPct dailyPrices)
                    (length dailyPrices)),
               max_drawdown_upto initialPrice dailyPrices
                 (exit_day (trailing_stop_hit initialPrice trailingStopPct dailyPrices)
                    (length dailyPrices))))"
proof -
  have s: "\<exists>reason. simulateSimpleTrailingStop initialPrice dailyPrices trailingStopPct =
              (dailyPrices ! exit_day (simple_stop_hit initialPrice trailingStopPct dailyPrices)
                               (length dailyPrices),
               reason,
               max_gain_upto initialPrice dailyPrices
                 (exit_day (simple_stop_hit initialPrice trailingStopPct dailyPrices)
                    (length dailyPrices)),
               max_drawdown_upto initialPrice dailyPrices
                 (exit_day (simple_stop_hit initialPrice trailingStopPct dailyPrices)
                    (length dailyPrices)))"
    using assms(1)
      simple_loop_exit [OF assms(1) _ refl, where st =
        "\<lparr>trailingStopLevel = fmul initialPrice (fsub 1 trailingStopPct),
          highestPrice = initialPrice, takeProfitHit = False,
          maxGain = 0, maxDrawdown = 0, exitStrategy = [], finalPrice = initialPrice\<rparr>"
        and pct = trailingStopPct and i = initialPrice]
    by (simp add: simulateSimpleTrailingStop_def simple_trailing_replay_def Let_def
          max_gain_upto_fold max_drawdown_upto_fold simple_stop_hit_def [abs_def])
  have t: "\<exists>reason. simulateTrailingStop initialPrice dailyPrices takeProfitPct trailingStopPct =
              (dailyPrices ! exit_day (trailing_stop_hit initialPrice trailingStopPct dailyPrices)
                               (length dailyPrices),
               reason,
               max_gain_upto initialPrice dailyPrices
                 (exit_day (trailing_stop_hit initialPrice trailingStopPct dailyPrices)
                    (length dailyPrices)),
               max_drawdown_upto initialPrice dailyPrices
                 (exit_day (trailing_stop_hit initialPrice trailingStopPct dailyPrices)
                    (length dailyPrices)))"
    using assms(1)
      trailing_loop_exit [OF assms(1) _ refl, where st =
        "\<lparr>trailingStopLevel = fmul initialPrice (fsub 1 trailingStopPct),
          highestPrice = initialPrice, takeProfitHit = False,
          maxGain = 0, maxDrawdown = 0, exitStrategy = [], finalPrice = initialPrice\<rparr>"
        and pct = trailingStopPct and i = initialPrice
        and target = "fmul initialPrice (fadd 1 takeProfitPct)"]
    by (simp add: simulateTrailingStop_def trailing_replay_def Let_def
          max_gain_upto_fold max_drawdown_upto_fold trailing_stop_hit_def [abs_def])
  from s t show ?thesis by (rule conjI)
qed

text \<open>
  The theorem at an entry price of 100, the series 100, 80, 200 and a stop of 15%: both
  strategies exit on the second day.
\<close>

theorem exit_simulation_extrema_witness:
  "[100, 80, 200 :: float64] \<noteq> []
   \<and> (100 :: float64) \<noteq> 0
   \<and> exit_day (simple_stop_hit 100 (round64 (15 / 100)) [100, 80, 200]) (length [100, 80, 200 :: float64]) = 1
   \<and> exit_day (trailing_stop_hit 100 (round64 (15 / 100)) [100, 80, 200]) (length [100, 80, 200 :: float64]) = 1
   \<and> fst (simulateSimpleTrailingStop 100 [100, 80, 200] (round64 (15 / 100))) = 80
   \<and> fst (snd (snd (simulateSimpleTrailingStop 100 [100, 80, 200] (round64 (15 / 100)))))
        = max_gain_upto 100 [100, 80, 200] 1
   \<and> snd (snd (snd (simulateTrailingStop 100 [100, 80, 200] (round64 (10 / 100)) (round64 (15 / 100)))))
        = max_drawdown_upto 100 [100, 80, 200] 1"
proof -
  have ne: "[100, 80, 200 :: float64] \<noteq> []" by simp
  have k: "exit_day (simple_stop_hit 100 (round64 (15 / 100)) [100, 80, 200]) (length [100, 80, 200 :: float64]) = 1"
    "exit_day (trailing_stop_hit 100 (round64 (15 / 100)) [100, 80, 200]) (length [100, 80, 200 :: float64]) = 1"
    by code_simp+
  from exit_simulation_extrema [OF ne, of 100 "round64 (15 / 100)" "round64 (10 / 100)"] k
  show ?thesis by auto
qed

text \<open>
  The claim as first stated, that the days after the exit day still contribute, fails
  at that series: the third day stands 100% above the entry price and both strategies
  report a maximum gain of zero.
\<close>

theorem exit_simulation_extrema_counterexample:
  "simulateSimpleTrailingStop 100 [100, 80, 200] (round64 (15 / 100))
     = (80, ''Trailing stop hit'', 0, - 20)
   \<and> simulateTrailingStop 100 [100, 80, 200] (round64 (10 / 100)) (round64 (15 / 100))
        = (80, ''Trailing stop hit (before take profit)'', 0, - 20)
   \<and> gain 100 ([100, 80, 200] ! 2) = 100"
  by code_simp

text \<open>
  Claim C9. The simple trailing stop with entry price 100, stop percentage 15% (the
  float of \<open>0.15\<close>) and the series 100, 120, 110, 101, 84: the high is raised to 120 and the stop level to 102, the
  replay exits on the day at 101 with exit price 101, and reports a maximum gain of 20%
  and a maximum drawdown of 0%.
\<close>

theorem simple_trailing_stop_scenario:
  "simple_trailing_replay 100 [100, 120, 110, 101, 84] (round64 (15 / 100)) =
     \<lparr>trailingStopLevel = 102, highestPrice = 120, takeProfitHit = False,
      maxGain = 20, maxDrawdown = 0, exitStrategy = ''Trailing stop hit'', finalPrice = 101\<rparr>
   \<and> simulateSimpleTrailingStop 100 [100, 120, 110, 101, 84] (round64 (15 / 100)) =
     (101, ''Trailing stop hit'', 20, 0)"
  by code_simp

text \<open>
  Claim C8, at its last step. The fallback to the lowest price of the period is taken
  only when that price is strictly more than 1% below the entry price: a lowest price of
  99 against an entry price of 100, which is 1% below, is not used, the initial price is
  returned and the blended entry price is the initial price; a lowest price of 98.5 is
  used.
\<close>

theorem detectDip_one_percent_boundary:
  "detectDip 100 [99] (round64 (8 / 10)) = (100, ''no dip detected'')
   \<and> weightedBuyPrice 100 [99] (round64 (8 / 10)) = 100
   \<and> detectDip 100 [197 / 2] (round64 (8 / 10)) = (197 / 2, ''lowest price (1%+ drop)'')"
  by code_simp

end
